theory Spec2Isabelle
  imports Main "HOL-Library.AList"
begin

section \<open>The in-process deduplication cache (cache/memory.go)\<close>

text \<open>
  A \<open>time.Time\<close> is an integer count of nanoseconds and a \<open>time.Duration\<close> is an
  integer number of nanoseconds; \<open>t.After(u)\<close> is \<open>u < t\<close> and \<open>t.Add(d)\<close> is \<open>t + d\<close>.
  The \<open>entries\<close> map is an association list from key to expiry time that is only ever
  changed by \<open>AList.update\<close> (the map store \<open>entries[k] = v\<close>) and \<open>AList.delete\<close>
  (the builtin \<open>delete\<close>), and read through \<open>map_of\<close>. The mutex, the ticker and the stop
  channel carry no data and are left out: every operation below is one critical section.
\<close>

record MemoryCache =
  entries :: "(string \<times> int) list"
  maxSize :: int
  enableLRU :: bool
  accessOrder :: "string list"


text \<open>The \<open>error\<close> a cache backend returns, carrying its message.\<close>

datatype cache_error = CacheError string


text \<open>\<open>removeFromAccessOrder\<close>: drop the first occurrence of the key, if any.\<close>

fun removeFromAccessOrder :: "string \<Rightarrow> string list \<Rightarrow> string list" where
  "removeFromAccessOrder txHash [] = []"
| "removeFromAccessOrder txHash (key # rest) =
     (if key = txHash then rest else key # removeFromAccessOrder txHash rest)"

definition updateAccessOrder :: "string \<Rightarrow> string list \<Rightarrow> string list" where
  "updateAccessOrder txHash order = removeFromAccessOrder txHash order @ [txHash]"

text \<open>
  \<open>IsProcessed\<close> at clock reading \<open>now\<close> returns the Go pair \<open>(bool, error)\<close>, with
  \<open>None\<close> for a nil error, and the cache after the call: an expired entry is deleted, and
  in LRU mode a hit moves the key to the back of the recency list.
\<close>

definition IsProcessed ::
  "MemoryCache \<Rightarrow> int \<Rightarrow> string \<Rightarrow> (bool \<times> cache_error option) \<times> MemoryCache" where
  "IsProcessed c now txHash =
     (case map_of (entries c) txHash of
        None \<Rightarrow> ((False, None), c)
      | Some expiresAt \<Rightarrow>
          if expiresAt < now then
            ((False, None),
             c\<lparr>entries := AList.delete txHash (entries c),
               accessOrder := (if enableLRU c
                               then removeFromAccessOrder txHash (accessOrder c)
                               else accessOrder c)\<rparr>)
          else
            ((True, None),
             if enableLRU c
             then c\<lparr>accessOrder := updateAccessOrder txHash (accessOrder c)\<rparr>
             else c))"

text \<open>
  Go leaves the iteration order of a map unspecified, and \<open>MarkProcessed\<close> ranges over
  \<open>entries\<close> twice when it evicts without LRU. What the runtime chooses during one call is
  an argument of the model: the clock read before the scan (\<open>evict_clock\<close>) and, for each
  of the two \<open>range\<close> statements, a list of keys giving the order of visit. Keys of the map
  that the list does not mention are visited afterwards, in the order of the association
  list, so every choice of lists is an iteration order and every iteration order is given
  by some list.
\<close>

record mark_env =
  evict_clock :: int
  range_expired :: "string list"
  range_any :: "string list"

definition range_keys :: "string list \<Rightarrow> (string \<times> int) list \<Rightarrow> string list" where
  "range_keys order es =
     filter (\<lambda>k. k \<in> set (map fst es)) order @ filter (\<lambda>k. k \<notin> set order) (map fst es)"

text \<open>
  The non-LRU branch of \<open>MarkProcessed\<close>: delete the first expired entry the first loop
  meets; if it met none and the map is not empty, delete the first entry the second loop
  meets.
\<close>

definition evictWithoutLRU :: "mark_env \<Rightarrow> (string \<times> int) list \<Rightarrow> (string \<times> int) list" where
  "evictWithoutLRU env es =
     (case find (\<lambda>key. case map_of es key of Some expiresAt \<Rightarrow> expiresAt < evict_clock env
                                             | None \<Rightarrow> False)
                (range_keys (range_expired env) es) of
        Some key \<Rightarrow> AList.delete key es
      | None \<Rightarrow>
          if length es > 0 then
            (case range_keys (range_any env) es of
               key # _ \<Rightarrow> AList.delete key es
             | [] \<Rightarrow> es)
          else es)"

definition evict :: "mark_env \<Rightarrow> MemoryCache \<Rightarrow> MemoryCache" where
  "evict env c =
     (if int (length (entries c)) \<ge> maxSize c then
        (if enableLRU c then
           (case accessOrder c of
              [] \<Rightarrow> c
            | oldest # rest \<Rightarrow>
                c\<lparr>entries := AList.delete oldest (entries c), accessOrder := rest\<rparr>)
         else c\<lparr>entries := evictWithoutLRU env (entries c)\<rparr>)
      else c)"

text \<open>
  \<open>MarkProcessed\<close> at clock reading \<open>now\<close> returns its error (always nil) and the cache
  after the call.
\<close>

definition MarkProcessed ::
  "mark_env \<Rightarrow> MemoryCache \<Rightarrow> int \<Rightarrow> string \<Rightarrow> int \<Rightarrow> cache_error option \<times> MemoryCache" where
  "MarkProcessed env c now txHash ttl =
     (let c1 = evict env c;
          c2 = c1\<lparr>entries := AList.update txHash (now + ttl) (entries c1)\<rparr>
      in (None,
          if enableLRU c2
          then c2\<lparr>accessOrder := updateAccessOrder txHash (accessOrder c2)\<rparr>
          else c2))"

text \<open>One pass of the background sweeper \<open>cleanupExpired\<close>.\<close>

definition sweep :: "MemoryCache \<Rightarrow> int \<Rightarrow> MemoryCache" where
  "sweep c now =
     c\<lparr>entries := filter (\<lambda>(key, expiresAt). \<not> expiresAt < now) (entries c),
       accessOrder :=
         (if enableLRU c
          then fold removeFromAccessOrder
                 (map fst (filter (\<lambda>(key, expiresAt). expiresAt < now) (entries c)))
                 (accessOrder c)
          else accessOrder c)\<rparr>"

text \<open>A sequence of calls on one cache, each with its own clock reading.\<close>

datatype cache_call =
    CallIsProcessed int string
  | CallMarkProcessed mark_env int string int
  | CallSweep int

fun apply_call :: "MemoryCache \<Rightarrow> cache_call \<Rightarrow> MemoryCache" where
  "apply_call c (CallIsProcessed now k) = snd (IsProcessed c now k)"
| "apply_call c (CallMarkProcessed env now k ttl) = snd (MarkProcessed env c now k ttl)"
| "apply_call c (CallSweep now) = sweep c now"




section \<open>The cache interface (cache/interface.go) and its backends\<close>

text \<open>
  The interface \<open>cache.Cache\<close> as the normalizers use it: the two methods, over the state
  \<open>'c\<close> of the backend behind the interface value, each given the clock reading of the
  call. Any backend, the remote one and a failing one included, is a value of this record.
\<close>

record 'c Cache =
  isProcessed :: "'c \<Rightarrow> int \<Rightarrow> string \<Rightarrow> (bool \<times> cache_error option) \<times> 'c"
  markProcessed :: "'c \<Rightarrow> int \<Rightarrow> string \<Rightarrow> int \<Rightarrow> cache_error option \<times> 'c"

definition memoryCache :: "mark_env \<Rightarrow> MemoryCache Cache" where
  "memoryCache env = \<lparr>isProcessed = IsProcessed, markProcessed = MarkProcessed env\<rparr>"

text \<open>\<open>NoOpCache\<close> (cache/noop.go): never processed, every call succeeds.\<close>

definition noOpCache :: "unit Cache" where
  "noOpCache = \<lparr>isProcessed = (\<lambda>c now txHash. ((False, None), c)),
                 markProcessed = (\<lambda>c now txHash ttl. (None, c))\<rparr>"

text \<open>The calls a normalizer makes on its cache, in order.\<close>

datatype cache_event = Lookup string | Mark string int

section \<open>Strings and numbers of the Go library\<close>

text \<open>
  A Go string is its list of bytes. \<open>strings.ToLower\<close> is modelled on ASCII, where it
  maps \<open>A\<close>..\<open>Z\<close> to \<open>a\<close>..\<open>z\<close> and leaves every other byte alone.
\<close>

definition toLowerChar :: "char \<Rightarrow> char" where
  "toLowerChar c =
     (let n = (of_char c :: nat) in if 65 \<le> n \<and> n \<le> 90 then char_of (n + 32) else c)"

definition ToLower :: "string \<Rightarrow> string" where
  "ToLower s = map toLowerChar s"

definition HasPrefix :: "string \<Rightarrow> string \<Rightarrow> bool" where
  "HasPrefix s pre \<longleftrightarrow> take (length pre) s = pre"

definition TrimPrefix :: "string \<Rightarrow> string \<Rightarrow> string" where
  "TrimPrefix s pre = (if HasPrefix s pre then drop (length pre) s else s)"

text \<open>The test \<open>(c >= '0' && c <= '9') || (c >= 'a' && c <= 'f')\<close> of the validators.\<close>

definition isLowerHex :: "char \<Rightarrow> bool" where
  "isLowerHex c =
     (let n = (of_char c :: nat) in (48 \<le> n \<and> n \<le> 57) \<or> (97 \<le> n \<and> n \<le> 102))"

text \<open>
  The digit value \<open>strconv\<close> and \<open>math/big\<close> give a byte: \<open>0\<close>..\<open>9\<close>, and a letter of
  either case counted from 10; a value not below the base is rejected by the caller.
\<close>

definition digitVal :: "char \<Rightarrow> nat option" where
  "digitVal c =
     (let n = (of_char c :: nat) in
      if 48 \<le> n \<and> n \<le> 57 then Some (n - 48)
      else if 97 \<le> n \<and> n \<le> 122 then Some (n - 97 + 10)
      else if 65 \<le> n \<and> n \<le> 90 then Some (n - 65 + 10)
      else None)"

fun parseDigits :: "nat \<Rightarrow> nat \<Rightarrow> string \<Rightarrow> nat option" where
  "parseDigits base acc [] = Some acc"
| "parseDigits base acc (c # cs) =
     (case digitVal c of
        None \<Rightarrow> None
      | Some d \<Rightarrow> if d < base then parseDigits base (acc * base + d) cs else None)"

text \<open>
  \<open>strconv.ParseUint(s, base, 64)\<close> for an explicit base: no sign, no prefix, no
  underscore, at least one digit, and the value must fit 64 bits. \<open>None\<close> is an error.
\<close>

definition ParseUint :: "string \<Rightarrow> nat \<Rightarrow> nat option" where
  "ParseUint s base =
     (if s = [] then None
      else case parseDigits base 0 s of
             None \<Rightarrow> None
           | Some n \<Rightarrow> if n < 2 ^ 64 then Some n else None)"

text \<open>
  A number with an optional sign and at least one digit, as \<open>big.Int.SetString(s, base)\<close>
  reads it for an explicit base: the whole string must be consumed.
\<close>

definition parseSigned :: "string \<Rightarrow> nat \<Rightarrow> int option" where
  "parseSigned s base =
     (case s of
        [] \<Rightarrow> None
      | c # cs \<Rightarrow>
          let neg = (c = CHR ''-'');
              body = (if c = CHR ''+'' \<or> c = CHR ''-'' then cs else s)
          in if body = [] then None
             else case parseDigits base 0 body of
                    None \<Rightarrow> None
                  | Some n \<Rightarrow> Some (if neg then - int n else int n))"

text \<open>
  \<open>strconv.ParseInt(s, base, 64)\<close> for an explicit base, and \<open>strconv.Atoi\<close> on a 64-bit
  platform (base 10): as above, and the value must fit a signed 64-bit integer.
\<close>

definition ParseInt :: "string \<Rightarrow> nat \<Rightarrow> int option" where
  "ParseInt s base =
     (case parseSigned s base of
        None \<Rightarrow> None
      | Some v \<Rightarrow> if - (2 ^ 63) \<le> v \<and> v < 2 ^ 63 then Some v else None)"

definition Atoi :: "string \<Rightarrow> int option" where
  "Atoi s = ParseInt s 10"

text \<open>
  A \<open>float64\<close>: a finite value is \<open>m * 2 ^ e\<close> for integers \<open>m\<close> and \<open>e\<close> (every finite
  \<open>float64\<close> has this form, with \<open>\<bar>m\<bar> < 2 ^ 53\<close>; both zeros are \<open>m = 0\<close>), or it is an
  infinity or a NaN.
\<close>

datatype float64 = Finite int int | PosInf | NegInf | NaN

text \<open>A finite \<open>big.Float\<close> \<open>m * 2 ^ e\<close> is the pair \<open>(m, e)\<close>.\<close>

fun bitLen :: "nat \<Rightarrow> nat" where
  "bitLen n = (if n = 0 then 0 else Suc (bitLen (n div 2)))"

declare bitLen.simps [simp del]

text \<open>
  Rounding a product to \<open>prec\<close> bits of mantissa, to nearest and ties to even, the
  rounding mode of a fresh \<open>big.Float\<close>. The exponent range of \<open>big.Float\<close> (32 bits) is
  out of reach of a \<open>float64\<close> operand and is not modelled.
\<close>

definition roundToPrec :: "nat \<Rightarrow> int \<times> int \<Rightarrow> int \<times> int" where
  "roundToPrec prec x =
     (case x of (m, e) \<Rightarrow>
        let n = bitLen (nat \<bar>m\<bar>) in
        if n \<le> prec then (m, e)
        else let s = n - prec;
                 q = \<bar>m\<bar> div 2 ^ s;
                 r = \<bar>m\<bar> mod 2 ^ s;
                 half = 2 ^ (s - 1);
                 q' = (if half < r \<or> (r = half \<and> odd q) then q + 1 else q)
             in (sgn m * q', e + int s))"

definition bigFloatMul :: "nat \<Rightarrow> int \<times> int \<Rightarrow> int \<times> int \<Rightarrow> int \<times> int" where
  "bigFloatMul prec x y = roundToPrec prec (fst x * fst y, snd x + snd y)"

text \<open>\<open>(*big.Float).Int\<close> on a finite value: truncation towards zero.\<close>

definition bigFloatInt :: "int \<times> int \<Rightarrow> int" where
  "bigFloatInt x =
     (case x of (m, e) \<Rightarrow>
        if 0 \<le> e then m * 2 ^ nat e else sgn m * (\<bar>m\<bar> div 2 ^ nat (- e)))"

text \<open>
  What \<open>new(big.Float).Mul(big.NewFloat(v), y).Int(nil)\<close> leaves in \<open>amount\<close> for a finite
  non-zero \<open>big.Float\<close> \<open>y\<close>, the product rounded to \<open>prec\<close> bits: \<open>big.NewFloat\<close> panics on
  a NaN (\<open>Inl\<close>), and \<open>Int\<close> returns nil on an infinity (\<open>Inr None\<close>).
\<close>

datatype nan_panic = ErrNaN

definition scaledAmount :: "nat \<Rightarrow> float64 \<Rightarrow> int \<times> int \<Rightarrow> nan_panic + int option" where
  "scaledAmount prec v y =
     (case v of
        NaN \<Rightarrow> Inl ErrNaN
      | PosInf \<Rightarrow> Inr None
      | NegInf \<Rightarrow> Inr None
      | Finite m e \<Rightarrow> Inr (Some (bigFloatInt (bigFloatMul prec (m, e) y))))"

text \<open>
  The conversion \<open>int(v)\<close> of a \<open>float64\<close>: truncation towards zero when the result fits
  64 bits. Otherwise Go leaves the result to the platform; the model returns what amd64
  does, the smallest 64-bit integer.
\<close>

definition float64ToInt :: "float64 \<Rightarrow> int" where
  "float64ToInt v =
     (case v of
        Finite m e \<Rightarrow>
          (let t = bigFloatInt (m, e)
           in if - (2 ^ 63) \<le> t \<and> t < 2 ^ 63 then t else - (2 ^ 63))
      | _ \<Rightarrow> - (2 ^ 63))"

section \<open>The Ethereum normalizer (the processor in eth/)\<close>

text \<open>The dynamic type of the \<open>interface{}\<close> field \<open>Decimals\<close>, when it is not nil.\<close>

datatype decimals_value =
    DecFloat64 float64
  | DecInt int
  | DecInt64 int
  | DecString string
  | DecOther

record AlchemyRawContract =
  RawValue :: string
  Address :: string
  Decimals :: "decimals_value option"

text \<open>
  \<open>AlchemyActivity\<close>; a pointer field is an option. The fields \<open>ERC1155Metadata\<close> and
  \<open>Log\<close> are never read by the processor and are left out.
\<close>

record AlchemyActivity =
  BlockNum :: string
  Hash :: string
  FromAddress :: string
  ToAddress :: string
  Value :: "float64 option"
  ERC721TokenID :: "string option"
  Asset :: string
  Category :: string
  RawContract :: "AlchemyRawContract option"
  TypeTraceAddress :: "string option"

text \<open>
  \<open>ProcessedActivity\<close>. The field \<open>PValue\<close> is the integer whose decimal rendering
  \<open>amount.String()\<close> the Go field \<open>Value\<close> holds.
\<close>

record ProcessedActivity =
  PTxHash :: string
  PFromAddress :: string
  PToAddress :: string
  PValue :: int
  PCurrency :: string
  PCategory :: string
  PBlockNumber :: nat
  PNetwork :: string
  PIsInternal :: bool

datatype validation_error =
    AddressIsEmpty
  | InvalidAddressLength nat
  | InvalidHexCharacterInAddress char
  | TransactionHashIsEmpty
  | InvalidHashLength nat
  | InvalidHexCharacterInHash char
  | BlockNumberIsEmpty
  | BlockNumberIsEmptyAfterRemovingPrefix
  | InvalidHexCharacterInBlockNumber char

text \<open>
  What \<open>ProcessActivity\<close> returns when it does not return nil: one of its wrapped errors,
  or, for \<open>BigFloatPanic\<close>, no return at all (the panic of \<open>big.NewFloat\<close> on a NaN).
\<close>

datatype process_error =
    InvalidToAddress validation_error
  | InvalidFromAddress validation_error
  | InvalidTransactionHash validation_error
  | InvalidBlockNumber validation_error
  | FailedToParseBlockNumber
  | HandlerError string
  | BigFloatPanic

text \<open>
  The \<open>Processor\<close>. Its \<open>cache\<close> is the interface value (\<open>None\<close> for nil; the state of the
  backend is passed alongside), \<open>tokenAddresses\<close> lists the symbol table in the order a
  \<open>range\<close> visits it, and the handler returns \<open>None\<close> for a nil error. The address type
  \<open>'a\<close> and the function \<open>common.HexToAddress\<close> of go-ethereum are parameters.
\<close>

record ('c, 'a) Processor =
  cache :: "'c Cache option"
  tokenAddresses :: "(string \<times> 'a) list"
  handler :: "(ProcessedActivity \<Rightarrow> string option) option"
  chainID :: string

definition NewProcessor ::
  "(string \<Rightarrow> 'a) \<Rightarrow> 'c Cache option \<Rightarrow> (string \<times> string) list \<Rightarrow>
   (ProcessedActivity \<Rightarrow> string option) option \<Rightarrow> string \<Rightarrow> ('c, 'a) Processor" where
  "NewProcessor HexToAddress cache_arg tokenAddrs handler_arg chain =
     \<lparr>cache = cache_arg,
      tokenAddresses = map (\<lambda>(symbol, addr). (symbol, HexToAddress addr)) tokenAddrs,
      handler = handler_arg,
      chainID = chain\<rparr>"

definition getTokenSymbol :: "('c, 'a) Processor \<Rightarrow> 'a \<Rightarrow> string" where
  "getTokenSymbol p tokenAddr =
     (case find (\<lambda>(symbol, addr). addr = tokenAddr) (tokenAddresses p) of
        Some (symbol, addr) \<Rightarrow> symbol
      | None \<Rightarrow> [])"

definition validateEthereumAddress :: "string \<Rightarrow> validation_error option" where
  "validateEthereumAddress addr =
     (if addr = [] then Some AddressIsEmpty
      else let a = TrimPrefix (ToLower addr) ''0x'' in
           if length a \<noteq> 40 then Some (InvalidAddressLength (length a))
           else case find (\<lambda>c. \<not> isLowerHex c) a of
                  Some c \<Rightarrow> Some (InvalidHexCharacterInAddress c)
                | None \<Rightarrow> None)"

definition validateTransactionHash :: "string \<Rightarrow> validation_error option" where
  "validateTransactionHash hash =
     (if hash = [] then Some TransactionHashIsEmpty
      else let h = TrimPrefix (ToLower hash) ''0x'' in
           if length h \<noteq> 64 then Some (InvalidHashLength (length h))
           else case find (\<lambda>c. \<not> isLowerHex c) h of
                  Some c \<Rightarrow> Some (InvalidHexCharacterInHash c)
                | None \<Rightarrow> None)"

definition validateBlockNumber :: "string \<Rightarrow> validation_error option" where
  "validateBlockNumber blockNumStr =
     (if blockNumStr = [] then Some BlockNumberIsEmpty
      else let b = TrimPrefix (ToLower blockNumStr) ''0x'' in
           if length b = 0 then Some BlockNumberIsEmptyAfterRemovingPrefix
           else case find (\<lambda>c. \<not> isLowerHex c) b of
                  Some c \<Rightarrow> Some (InvalidHexCharacterInBlockNumber c)
                | None \<Rightarrow> None)"

text \<open>The closure \<open>getDecimals\<close> of \<open>ProcessActivity\<close>.\<close>

definition getDecimals :: "AlchemyActivity \<Rightarrow> int" where
  "getDecimals activity =
     (case RawContract activity of
        None \<Rightarrow> 18
      | Some rc \<Rightarrow>
          (case Decimals rc of
             None \<Rightarrow> 18
           | Some (DecFloat64 v) \<Rightarrow> float64ToInt v
           | Some (DecInt v) \<Rightarrow> v
           | Some (DecInt64 v) \<Rightarrow> v
           | Some (DecString v) \<Rightarrow>
               (let decimalsStr = TrimPrefix v ''0x'' in
                case ParseInt decimalsStr 16 of
                  Some dec \<Rightarrow> dec
                | None \<Rightarrow> (case Atoi decimalsStr of Some dec \<Rightarrow> dec | None \<Rightarrow> 18))
           | Some DecOther \<Rightarrow> 18))"

text \<open>
  The currency of a contract, as the three token branches resolve it: the configured
  symbol, else the payload's asset, else \<open>UNKNOWN\<close>.
\<close>

definition resolveCurrency ::
  "('c, 'a) Processor \<Rightarrow> (string \<Rightarrow> 'a) \<Rightarrow> AlchemyActivity \<Rightarrow> AlchemyRawContract \<Rightarrow> string" where
  "resolveCurrency p HexToAddress activity rc =
     (let currency = getTokenSymbol p (HexToAddress (Address rc)) in
      if currency = [] then (if Asset activity = [] then ''UNKNOWN'' else Asset activity)
      else currency)"

text \<open>
  The classification of \<open>ProcessActivity\<close> (from \<open>category := ...\<close> to the end of the
  \<open>if\<close> chain): the activity is dropped with a nil return (\<open>Skipped\<close>), \<open>big.NewFloat\<close>
  panics (\<open>Panicked\<close>), or amount, currency and network are set. A nil \<open>amount\<close> (an
  infinity, an unreadable raw value) becomes 0.
\<close>

datatype classified = Skipped | Panicked | Classified int string string

definition isInternalTx :: "AlchemyActivity \<Rightarrow> bool" where
  "isInternalTx activity \<longleftrightarrow>
     ToLower (Category activity) = ''internal'' \<or>
     (case TypeTraceAddress activity of None \<Rightarrow> False | Some t \<Rightarrow> t \<noteq> [])"

definition classifyActivity ::
  "('c, 'a) Processor \<Rightarrow> (string \<Rightarrow> 'a) \<Rightarrow> AlchemyActivity \<Rightarrow> classified" where
  "classifyActivity p HexToAddress activity =
     (let category = ToLower (Category activity);
          testnet = (chainID p = ''eth-testnet'')
      in
      if category = ''external'' \<or> category = ''internal'' then
        (case Value activity of
           None \<Rightarrow> Skipped
         | Some ethValue \<Rightarrow>
             (case scaledAmount 53 ethValue (10 ^ 18, 0) of
                Inl _ \<Rightarrow> Panicked
              | Inr amt \<Rightarrow>
                  Classified (case amt of None \<Rightarrow> 0 | Some a \<Rightarrow> a) ''ETH''
                    (if testnet
                     then (if category = ''internal'' then ''INTERNAL-TESTNET'' else ''TESTNET'')
                     else (if category = ''internal'' then ''INTERNAL'' else ''MAINNET''))))
      else if category = ''token'' \<or> category = ''erc20'' \<or>
              (case RawContract activity of None \<Rightarrow> False | Some rc \<Rightarrow> Address rc \<noteq> []) then
        (case RawContract activity of
           None \<Rightarrow> Skipped
         | Some rc \<Rightarrow>
             let currency = resolveCurrency p HexToAddress activity rc;
                 network =
                   (if isInternalTx activity
                    then (if testnet then ''ERC-20-INTERNAL-TESTNET'' else ''ERC-20-INTERNAL'')
                    else (if testnet then ''ERC-20-TESTNET'' else ''ERC-20''))
             in
             if RawValue rc = [] then
               (case Value activity of
                  None \<Rightarrow> Skipped
                | Some tokenValue \<Rightarrow>
                    let decimals = getDecimals activity;
                        scale = (if 0 < decimals then 10 ^ nat decimals else 1)
                    in case scaledAmount (max 64 (bitLen (nat scale))) tokenValue (scale, 0) of
                         Inl _ \<Rightarrow> Panicked
                       | Inr amt \<Rightarrow>
                           Classified (case amt of None \<Rightarrow> 0 | Some a \<Rightarrow> a) currency network)
             else
               Classified
                 (case parseSigned (TrimPrefix (RawValue rc) ''0x'') 16 of
                    None \<Rightarrow> 0
                  | Some a \<Rightarrow> a)
                 currency network)
      else if category = ''erc721'' then
        (case (ERC721TokenID activity, RawContract activity) of
           (Some tokenID, Some rc) \<Rightarrow>
             Classified 1 (resolveCurrency p HexToAddress activity rc)
               (if isInternalTx activity
                then (if testnet then ''ERC-721-INTERNAL-TESTNET'' else ''ERC-721-INTERNAL'')
                else (if testnet then ''ERC-721-TESTNET'' else ''ERC-721''))
         | _ \<Rightarrow> Skipped)
      else if category = ''erc1155'' then
        (case RawContract activity of
           None \<Rightarrow> Skipped
         | Some rc \<Rightarrow>
             Classified 1 (resolveCurrency p HexToAddress activity rc)
               (if isInternalTx activity
                then (if testnet then ''ERC-1155-INTERNAL-TESTNET'' else ''ERC-1155-INTERNAL'')
                else (if testnet then ''ERC-1155-TESTNET'' else ''ERC-1155'')))
      else Skipped)"

text \<open>The transaction hash as \<open>ProcessActivity\<close> normalizes it, and the dedup key.\<close>

definition normalizeTxHash :: "string \<Rightarrow> string" where
  "normalizeTxHash hash =
     (let txHash = ToLower (TrimPrefix hash ''0x'')
      in if HasPrefix txHash ''0x'' then txHash else ''0x'' @ txHash)"

definition uniqueID :: "AlchemyActivity \<Rightarrow> string" where
  "uniqueID activity =
     (case TypeTraceAddress activity of
        None \<Rightarrow> normalizeTxHash (Hash activity)
      | Some t \<Rightarrow>
          if t \<noteq> [] then normalizeTxHash (Hash activity) @ ''_'' @ t
          else normalizeTxHash (Hash activity))"

text \<open>
  What one call of a normalizer did: the value returned (\<open>Inr ()\<close> for nil), the state of
  the cache backend afterwards, the events handed to the handler and the calls made on the
  cache, each in order. Logging is not modelled.
\<close>

record ('c, 'ev, 'err) outcome =
  result :: "'err + unit"
  cache_state :: 'c
  handler_calls :: "'ev list"
  cache_calls :: "cache_event list"

text \<open>\<open>24 * time.Hour\<close>, in nanoseconds.\<close>

definition ttl24h :: int where
  "ttl24h = 24 * 3600 * 1000000000"

text \<open>
  The cache consult shared by both normalizers: with a cache, \<open>IsProcessed\<close> is called
  once, and the event is skipped only if the call returned no error and \<open>true\<close>.
\<close>

definition consultCache ::
  "'c Cache option \<Rightarrow> 'c \<Rightarrow> int \<Rightarrow> string \<Rightarrow> bool \<times> 'c \<times> cache_event list" where
  "consultCache ch st now key =
     (case ch of
        None \<Rightarrow> (False, st, [])
      | Some backend \<Rightarrow>
          (case isProcessed backend st now key of
             ((processed, err), st') \<Rightarrow> (err = None \<and> processed, st', [Lookup key])))"

text \<open>
  The end of both normalizers: with a handler, call it and return its error wrapped; then,
  with a cache, call \<open>MarkProcessed\<close> with the 24-hour TTL and drop its error; return nil.
\<close>

definition deliver ::
  "'c Cache option \<Rightarrow> ('ev \<Rightarrow> string option) option \<Rightarrow> 'c \<Rightarrow> int \<Rightarrow> string \<Rightarrow> 'ev \<Rightarrow>
   ('c, 'ev, process_error) outcome" where
  "deliver ch h st now key ev =
     (case (case h of None \<Rightarrow> None | Some f \<Rightarrow> f ev) of
        Some err \<Rightarrow>
          \<lparr>result = Inl (HandlerError err), cache_state = st,
           handler_calls = [ev], cache_calls = []\<rparr>
      | None \<Rightarrow>
          (case ch of
             None \<Rightarrow>
               \<lparr>result = Inr (), cache_state = st,
                handler_calls = (if h = None then [] else [ev]), cache_calls = []\<rparr>
           | Some backend \<Rightarrow>
               \<lparr>result = Inr (), cache_state = snd (markProcessed backend st now key ttl24h),
                handler_calls = (if h = None then [] else [ev]),
                cache_calls = [Mark key ttl24h]\<rparr>))"

text \<open>
  The part of \<open>ProcessActivity\<close> between the cache consult and the handler: the block
  number is validated and parsed, the activity classified, a zero amount dropped.
  \<open>Inr None\<close> is a nil return without output.
\<close>

definition extractActivity ::
  "('c, 'a) Processor \<Rightarrow> (string \<Rightarrow> 'a) \<Rightarrow> AlchemyActivity \<Rightarrow>
   process_error + ProcessedActivity option" where
  "extractActivity p HexToAddress activity =
     (case validateBlockNumber (BlockNum activity) of
        Some e \<Rightarrow> Inl (InvalidBlockNumber e)
      | None \<Rightarrow>
          (case ParseUint (TrimPrefix (BlockNum activity) ''0x'') 16 of
             None \<Rightarrow> Inl FailedToParseBlockNumber
           | Some blockNum \<Rightarrow>
               (case classifyActivity p HexToAddress activity of
                  Skipped \<Rightarrow> Inr None
                | Panicked \<Rightarrow> Inl BigFloatPanic
                | Classified amount currency network \<Rightarrow>
                    if amount = 0 then Inr None
                    else Inr (Some
                      \<lparr>PTxHash = normalizeTxHash (Hash activity),
                       PFromAddress = FromAddress activity,
                       PToAddress = ToAddress activity,
                       PValue = amount,
                       PCurrency = currency,
                       PCategory = ToLower (Category activity),
                       PBlockNumber = blockNum,
                       PNetwork = network,
                       PIsInternal = isInternalTx activity\<rparr>))))"

text \<open>
  \<open>ProcessActivity\<close>, on the backend state \<open>st\<close>, with the clock readings of its two
  cache calls.
\<close>

definition ProcessActivity ::
  "('c, 'a) Processor \<Rightarrow> (string \<Rightarrow> 'a) \<Rightarrow> 'c \<Rightarrow> int \<Rightarrow> int \<Rightarrow> AlchemyActivity \<Rightarrow>
   ('c, ProcessedActivity, process_error) outcome" where
  "ProcessActivity p HexToAddress st now_check now_mark activity =
     (case validateEthereumAddress (ToAddress activity) of
        Some e \<Rightarrow>
          \<lparr>result = Inl (InvalidToAddress e), cache_state = st,
           handler_calls = [], cache_calls = []\<rparr>
      | None \<Rightarrow>
     (case validateEthereumAddress (FromAddress activity) of
        Some e \<Rightarrow>
          \<lparr>result = Inl (InvalidFromAddress e), cache_state = st,
           handler_calls = [], cache_calls = []\<rparr>
      | None \<Rightarrow>
     (case validateTransactionHash (normalizeTxHash (Hash activity)) of
        Some e \<Rightarrow>
          \<lparr>result = Inl (InvalidTransactionHash e), cache_state = st,
           handler_calls = [], cache_calls = []\<rparr>
      | None \<Rightarrow>
     (case consultCache (cache p) st now_check (uniqueID activity) of
        (hit, st1, lookups) \<Rightarrow>
          if hit then
            \<lparr>result = Inr (), cache_state = st1, handler_calls = [], cache_calls = lookups\<rparr>
          else
            (case extractActivity p HexToAddress activity of
               Inl e \<Rightarrow>
                 \<lparr>result = Inl e, cache_state = st1,
                  handler_calls = [], cache_calls = lookups\<rparr>
             | Inr None \<Rightarrow>
                 \<lparr>result = Inr (), cache_state = st1,
                  handler_calls = [], cache_calls = lookups\<rparr>
             | Inr (Some processedActivity) \<Rightarrow>
                 (let out = deliver (cache p) (handler p) st1 now_mark (uniqueID activity)
                              processedActivity
                  in out\<lparr>cache_calls := lookups @ cache_calls out\<rparr>))))))"

section \<open>The Solana normalizer (solana/processor.go)\<close>

text \<open>
  The raw transaction (solana/types.go), with the fields the processor reads. An \<open>int64\<close>
  is an integer of the range \<open>-2^63 .. 2^63 - 1\<close>, and its subtraction wraps around.
\<close>

definition wrap64 :: "int \<Rightarrow> int" where
  "wrap64 x = (x + 2 ^ 63) mod 2 ^ 64 - 2 ^ 63"

record AlchemySolanaInstruction =
  Data :: string
  ProgramIDIndex :: int
  Accounts :: "int list"

record AlchemySolanaInnerInstruction =
  InnerIndex :: int
  InnerInstructionList :: "AlchemySolanaInstruction list"

record AlchemySolanaTxMessage =
  Instructions :: "AlchemySolanaInstruction list"
  AccountKeys :: "string list"

record AlchemySolanaTxMeta =
  Fee :: int
  PreBalances :: "int list"
  PostBalances :: "int list"
  InnerInstructions :: "AlchemySolanaInnerInstruction list"
  InnerInstructionsNone :: bool
  LogMessages :: "string list"

record AlchemySolanaTxDetail =
  Message :: "AlchemySolanaTxMessage list"

record AlchemySolanaTransaction =
  Signature :: string
  Transaction :: "AlchemySolanaTxDetail list"
  Meta :: "AlchemySolanaTxMeta list"

record NativeTransfer =
  FromUserAccount :: string
  ToUserAccount :: string
  Amount :: int

text \<open>
  \<open>TokenTransfer\<close>. The \<open>float64\<close> field \<open>TokenAmount\<close> is the quotient
  \<open>float64(amount) / math.Pow10(decimals)\<close>; the model keeps its two operands, the raw
  amount and the number of decimals.
\<close>

record TokenTransfer =
  TFromUserAccount :: string
  TToUserAccount :: string
  FromTokenAccount :: string
  ToTokenAccount :: string
  TokenAmount :: "nat \<times> nat"
  Mint :: string
  Currency :: string

record ProcessedTransaction =
  PSignature :: string
  PSlot :: nat
  NativeTransfers :: "NativeTransfer list"
  TokenTransfers :: "TokenTransfer list"
  PFee :: int
  Timestamp :: int

text \<open>
  The Solana \<open>Processor\<close>: the cache interface value, the currency-to-mint table in the
  order a \<open>range\<close> visits it, and the handler.
\<close>

record 'c SolanaProcessor =
  sol_cache :: "'c Cache option"
  tokenMints :: "(string \<times> string) list"
  sol_handler :: "(ProcessedTransaction \<Rightarrow> string option) option"
  sol_chainID :: string

text \<open>
  The inner loop of \<open>extractNativeTransfers\<close> for the credited index \<open>i\<close>: the first
  \<open>j\<close> of the indices still to visit that passes both tests, where the loop breaks.
\<close>

fun scanDebit :: "nat \<Rightarrow> int list \<Rightarrow> int list \<Rightarrow> nat list \<Rightarrow> nat option" where
  "scanDebit i pre post [] = None"
| "scanDebit i pre post (j # js) =
     (if i \<noteq> j \<and> pre ! j > post ! j \<and> wrap64 (pre ! j - post ! j) > 0 then Some j
      else scanDebit i pre post js)"

text \<open>The outer loop, over the indices still to visit, appending to \<open>nativeTransfers\<close>.\<close>

fun nativeLoop ::
  "string list \<Rightarrow> int list \<Rightarrow> int list \<Rightarrow> nat list \<Rightarrow> NativeTransfer list \<Rightarrow>
   NativeTransfer list" where
  "nativeLoop accountKeys pre post [] nativeTransfers = nativeTransfers"
| "nativeLoop accountKeys pre post (i # rest) nativeTransfers =
     (let balanceChange = wrap64 (post ! i - pre ! i) in
      if balanceChange > 0 then
        (case scanDebit i pre post [0..<length accountKeys] of
           Some j \<Rightarrow>
             nativeLoop accountKeys pre post rest
               (nativeTransfers @
                [\<lparr>FromUserAccount = accountKeys ! j, ToUserAccount = accountKeys ! i,
                  Amount = balanceChange\<rparr>])
         | None \<Rightarrow> nativeLoop accountKeys pre post rest nativeTransfers)
      else nativeLoop accountKeys pre post rest nativeTransfers)"

definition extractNativeTransfers :: "string list \<Rightarrow> AlchemySolanaTxMeta \<Rightarrow> NativeTransfer list" where
  "extractNativeTransfers accountKeys meta =
     (if length (PreBalances meta) = length (PostBalances meta) \<and>
         length (PreBalances meta) = length accountKeys
      then nativeLoop accountKeys (PreBalances meta) (PostBalances meta)
             [0..<length accountKeys] []
      else [])"

definition splTokenProgramID :: string where
  "splTokenProgramID = ''TokenkegQfeZyiNwAJbNbGKPFXCWuBvf9Ss623VQ5DA''"

text \<open>An index of Go type \<open>int\<close> that is within the account keys.\<close>

definition inRange :: "int \<Rightarrow> string list \<Rightarrow> bool" where
  "inRange idx accountKeys \<longleftrightarrow> \<not> (idx < 0 \<or> idx \<ge> int (length accountKeys))"

definition isTokenInstruction :: "string list \<Rightarrow> AlchemySolanaInstruction \<Rightarrow> bool" where
  "isTokenInstruction accountKeys instruction \<longleftrightarrow>
     inRange (ProgramIDIndex instruction) accountKeys \<and>
     accountKeys ! nat (ProgramIDIndex instruction) = splTokenProgramID"

text \<open>The candidates \<open>allInstructions\<close>: top-level ones first, then the inner ones.\<close>

definition allInstructions ::
  "string list \<Rightarrow> AlchemySolanaTxMessage \<Rightarrow> AlchemySolanaTxMeta \<Rightarrow> AlchemySolanaInstruction list" where
  "allInstructions accountKeys msg meta =
     filter (isTokenInstruction accountKeys) (Instructions msg) @
     (if \<not> InnerInstructionsNone meta \<and> length (InnerInstructions meta) > 0
      then concat (map (\<lambda>group. filter (isTokenInstruction accountKeys)
                                   (InnerInstructionList group))
                     (InnerInstructions meta))
      else [])"

text \<open>\<open>binary.LittleEndian.Uint64\<close> of the eight bytes given.\<close>

definition leUint64 :: "string \<Rightarrow> nat" where
  "leUint64 bs = foldr (\<lambda>b acc. of_char b + 256 * acc) bs 0"

text \<open>The substring search of the legacy transfer: \<open>mintAddr\<close> occurs in \<open>logMsg\<close>.\<close>

definition occursIn :: "string \<Rightarrow> string \<Rightarrow> bool" where
  "occursIn mintAddr logMsg \<longleftrightarrow>
     length logMsg > 0 \<and> length mintAddr > 0 \<and> length logMsg \<ge> length mintAddr \<and>
     list_ex (\<lambda>i. take (length mintAddr) (drop i logMsg) = mintAddr)
       [0..<Suc (length logMsg - length mintAddr)]"

text \<open>
  The mint of a legacy transfer: the first configured mint found in the first log message
  that contains one; failing that, the first account key that is a configured non-empty
  mint; failing that, the empty string.
\<close>

definition resolveLegacyMint :: "'c SolanaProcessor \<Rightarrow> string list \<Rightarrow> string list \<Rightarrow> string" where
  "resolveLegacyMint p logMessages accountKeys =
     (case List.maps (\<lambda>logMsg. filter (\<lambda>mintAddr. occursIn mintAddr logMsg)
                                    (map snd (tokenMints p)))
             logMessages of
        mintAddr # _ \<Rightarrow> mintAddr
      | [] \<Rightarrow>
          (case filter (\<lambda>accountKey. accountKey \<noteq> [] \<and> accountKey \<in> set (map snd (tokenMints p)))
                  accountKeys of
             accountKey # _ \<Rightarrow> accountKey
           | [] \<Rightarrow> []))"

definition getCurrencyFromMint :: "'c SolanaProcessor \<Rightarrow> string \<Rightarrow> string option" where
  "getCurrencyFromMint p mint =
     (case find (\<lambda>(currency, mintAddr). mintAddr = mint) (tokenMints p) of
        Some (currency, mintAddr) \<Rightarrow> Some currency
      | None \<Rightarrow> None)"

text \<open>
  The first half of the loop body of \<open>extractTokenTransfers\<close>: from a candidate
  instruction to mint, source index, destination index and raw amount, or \<open>None\<close> where
  the loop continues. \<open>Base58Decode\<close> is \<open>base58.Decode\<close> of mr-tron/base58, a parameter;
  it returns the bytes, or \<open>None\<close> for an error.
\<close>

definition decodeInstruction ::
  "'c SolanaProcessor \<Rightarrow> (string \<Rightarrow> string option) \<Rightarrow> string list \<Rightarrow> AlchemySolanaTxMeta \<Rightarrow>
   AlchemySolanaInstruction \<Rightarrow> (string \<times> int \<times> int \<times> nat) option" where
  "decodeInstruction p Base58Decode accountKeys meta instruction =
     (if Data instruction = [] then None
      else case Base58Decode (Data instruction) of
        None \<Rightarrow> None
      | Some decodedData \<Rightarrow>
          if length decodedData < 1 then None
          else let instructionType = (of_char (hd decodedData) :: nat);
                   accounts = Accounts instruction
               in
               if instructionType = 12 then
                 (if length accounts < 4 \<or> length decodedData < 9 then None
                  else if \<not> inRange (accounts ! 0) accountKeys \<or>
                          \<not> inRange (accounts ! 1) accountKeys \<or>
                          \<not> inRange (accounts ! 2) accountKeys then None
                  else Some (accountKeys ! nat (accounts ! 1), accounts ! 0, accounts ! 2,
                             leUint64 (take 8 (drop 1 decodedData))))
               else if instructionType = 3 then
                 (if length accounts < 3 \<or> length decodedData < 9 then None
                  else if \<not> inRange (accounts ! 0) accountKeys \<or>
                          \<not> inRange (accounts ! 1) accountKeys then None
                  else Some (resolveLegacyMint p (LogMessages meta) accountKeys,
                             accounts ! 0, accounts ! 1,
                             leUint64 (take 8 (drop 1 decodedData))))
               else None)"

text \<open>The second half: the transfer appended for a decoded instruction, if any.\<close>

definition tokenTransferOf ::
  "'c SolanaProcessor \<Rightarrow> string list \<Rightarrow> (string \<times> int \<times> int \<times> nat) \<Rightarrow> TokenTransfer list" where
  "tokenTransferOf p accountKeys d =
     (case d of (mintAccount, fromTokenAccountIdx, toTokenAccountIdx, amount) \<Rightarrow>
        if mintAccount \<noteq> [] \<and> inRange fromTokenAccountIdx accountKeys \<and>
           inRange toTokenAccountIdx accountKeys
        then (case getCurrencyFromMint p mintAccount of
                None \<Rightarrow> []
              | Some currency \<Rightarrow>
                  [\<lparr>TFromUserAccount = accountKeys ! nat fromTokenAccountIdx,
                    TToUserAccount = accountKeys ! nat toTokenAccountIdx,
                    FromTokenAccount = accountKeys ! nat fromTokenAccountIdx,
                    ToTokenAccount = accountKeys ! nat toTokenAccountIdx,
                    TokenAmount =
                      (amount, if currency = ''USDC'' \<or> currency = ''USDT'' then 6 else 9),
                    Mint = mintAccount,
                    Currency = currency\<rparr>])
        else [])"

definition extractTokenTransfers ::
  "'c SolanaProcessor \<Rightarrow> (string \<Rightarrow> string option) \<Rightarrow> string list \<Rightarrow>
   AlchemySolanaTxMessage \<Rightarrow> AlchemySolanaTxMeta \<Rightarrow> TokenTransfer list" where
  "extractTokenTransfers p Base58Decode accountKeys msg meta =
     List.maps (\<lambda>instruction.
                  case decodeInstruction p Base58Decode accountKeys meta instruction of
                    None \<Rightarrow> []
                  | Some d \<Rightarrow> tokenTransferOf p accountKeys d)
       (allInstructions accountKeys msg meta)"

text \<open>
  \<open>ProcessTransaction\<close>, on the backend state \<open>st\<close>, with the clock readings of the cache
  consult, of the timestamp (in seconds) and of the cache mark.
\<close>

definition ProcessTransaction ::
  "'c SolanaProcessor \<Rightarrow> (string \<Rightarrow> string option) \<Rightarrow> 'c \<Rightarrow> int \<Rightarrow> int \<Rightarrow> int \<Rightarrow>
   AlchemySolanaTransaction \<Rightarrow> nat \<Rightarrow> ('c, ProcessedTransaction, process_error) outcome" where
  "ProcessTransaction p Base58Decode st now_check now_unix now_mark alchemyTx slot =
     (let nothing = \<lparr>result = Inr (), cache_state = st, handler_calls = [], cache_calls = []\<rparr>
      in
      if length (Transaction alchemyTx) = 0 \<or> length (Meta alchemyTx) = 0 then nothing
      else if length (Message (hd (Transaction alchemyTx))) = 0 then nothing
      else
        let msg = hd (Message (hd (Transaction alchemyTx)));
            meta = hd (Meta alchemyTx);
            accountKeys = AccountKeys msg
        in
        if length accountKeys = 0 then nothing
        else
          (case consultCache (sol_cache p) st now_check (Signature alchemyTx) of
             (hit, st1, lookups) \<Rightarrow>
               if hit then
                 \<lparr>result = Inr (), cache_state = st1, handler_calls = [], cache_calls = lookups\<rparr>
               else
                 let nativeTransfers = extractNativeTransfers accountKeys meta;
                     tokenTransfers = extractTokenTransfers p Base58Decode accountKeys msg meta;
                     processedTx =
                       \<lparr>PSignature = Signature alchemyTx, PSlot = slot,
                        NativeTransfers = nativeTransfers, TokenTransfers = tokenTransfers,
                        PFee = Fee meta, Timestamp = now_unix\<rparr>
                 in
                 if length nativeTransfers > 0 \<or> length tokenTransfers > 0 then
                   (let out = deliver (sol_cache p) (sol_handler p) st1 now_mark
                                (Signature alchemyTx) processedTx
                    in out\<lparr>cache_calls := lookups @ cache_calls out\<rparr>)
                 else
                   \<lparr>result = Inr (), cache_state = st1, handler_calls = [],
                    cache_calls = lookups\<rparr>))"

text \<open>The \<open>MarkProcessed\<close> calls among the calls made on the cache.\<close>

fun marksOf :: "cache_event list \<Rightarrow> (string \<times> int) list" where
  "marksOf [] = []"
| "marksOf (Lookup key # evs) = marksOf evs"
| "marksOf (Mark key ttl # evs) = (key, ttl) # marksOf evs"

text \<open>The errors of \<open>ProcessActivity\<close> that report a failed validation.\<close>

fun isValidationError :: "process_error \<Rightarrow> bool" where
  "isValidationError (InvalidToAddress e) = True"
| "isValidationError (InvalidFromAddress e) = True"
| "isValidationError (InvalidTransactionHash e) = True"
| "isValidationError (InvalidBlockNumber e) = True"
| "isValidationError e = False"

section \<open>The properties in the words of the specification\<close>

text \<open>
  The pairing in the words of the specification, with the amount the code emits: each
  index \<open>i\<close> whose balance change, as the \<open>int64\<close> difference, is positive, contributes
  at most one transfer, from the first \<open>j \<noteq> i\<close> whose pre-balance exceeds its post-balance
  by a positive \<open>int64\<close> difference, for the credited amount.
\<close>

definition creditedPairing :: "string list \<Rightarrow> int list \<Rightarrow> int list \<Rightarrow> NativeTransfer list" where
  "creditedPairing accountKeys pre post =
     concat (map (\<lambda>i.
        if 0 < wrap64 (post ! i - pre ! i) then
          (case find (\<lambda>j. j \<noteq> i \<and> post ! j < pre ! j \<and> 0 < wrap64 (pre ! j - post ! j))
                  [0..<length accountKeys] of
             Some j \<Rightarrow> [\<lparr>FromUserAccount = accountKeys ! j, ToUserAccount = accountKeys ! i,
                          Amount = wrap64 (post ! i - pre ! i)\<rparr>]
           | None \<Rightarrow> [])
        else [])
       [0..<length accountKeys])"

text \<open>
  The same without machine arithmetic: \<open>i\<close> is credited when its post-balance exceeds its
  pre-balance, \<open>j\<close> is debited when its pre-balance exceeds its post-balance, and the amount
  is the credit \<open>post ! i - pre ! i\<close>.
\<close>

definition plainPairing :: "string list \<Rightarrow> int list \<Rightarrow> int list \<Rightarrow> NativeTransfer list" where
  "plainPairing accountKeys pre post =
     concat (map (\<lambda>i.
        if pre ! i < post ! i then
          (case find (\<lambda>j. j \<noteq> i \<and> post ! j < pre ! j) [0..<length accountKeys] of
             Some j \<Rightarrow> [\<lparr>FromUserAccount = accountKeys ! j, ToUserAccount = accountKeys ! i,
                          Amount = post ! i - pre ! i\<rparr>]
           | None \<Rightarrow> [])
        else [])
       [0..<length accountKeys])"

text \<open>
  The pairing as the claim words it: as \<open>plainPairing\<close>, but with the amount the smaller
  of the credit of \<open>i\<close> and the debit of \<open>j\<close>.
\<close>

definition claimedPairing :: "string list \<Rightarrow> int list \<Rightarrow> int list \<Rightarrow> NativeTransfer list" where
  "claimedPairing accountKeys pre post =
     concat (map (\<lambda>i.
        if pre ! i < post ! i then
          (case find (\<lambda>j. j \<noteq> i \<and> post ! j < pre ! j) [0..<length accountKeys] of
             Some j \<Rightarrow> [\<lparr>FromUserAccount = accountKeys ! j, ToUserAccount = accountKeys ! i,
                          Amount = min (post ! i - pre ! i) (pre ! j - post ! j)\<rparr>]
           | None \<Rightarrow> [])
        else [])
       [0..<length accountKeys])"

text \<open>
  A handler error is kept: whenever an event handed to the handler made it return an
  error, the run returns that error wrapped, made no \<open>MarkProcessed\<close> call, and left the
  cache in the state \<open>st1\<close>.
\<close>

definition handlerErrorKept ::
  "('ev \<Rightarrow> string option) \<Rightarrow> ('c, 'ev, process_error) outcome \<Rightarrow> 'c \<Rightarrow> bool" where
  "handlerErrorKept h out st1 \<longleftrightarrow>
     (\<forall>ev err. ev \<in> set (handler_calls out) \<and> h ev = Some err \<longrightarrow>
        result out = Inl (HandlerError err) \<and> marksOf (cache_calls out) = [] \<and>
        cache_state out = st1)"

text \<open>
  The cache is marked only after the handler succeeded: every \<open>MarkProcessed\<close> call of the
  run is for the key \<open>key\<close> with the 24-hour TTL, in a run that returned nil after handing
  exactly one event to the handler, which returned nil.
\<close>

definition markedOnlyOnSuccess ::
  "('ev \<Rightarrow> string option) \<Rightarrow> string \<Rightarrow> ('c, 'ev, process_error) outcome \<Rightarrow> bool" where
  "markedOnlyOnSuccess h key out \<longleftrightarrow>
     (\<forall>k ttl. (k, ttl) \<in> set (marksOf (cache_calls out)) \<longrightarrow>
        k = key \<and> ttl = ttl24h \<and> result out = Inr () \<and>
        (\<exists>ev. handler_calls out = [ev] \<and> h ev = None))"

text \<open>
  The handler's success is enough: whenever an event handed to the handler made it return
  nil, the run returns nil, having called \<open>MarkProcessed\<close> once for \<open>key\<close> (if there is a
  cache), whatever that call returned.
\<close>

definition successDespiteMark ::
  "('ev \<Rightarrow> string option) \<Rightarrow> string \<Rightarrow> bool \<Rightarrow> ('c, 'ev, process_error) outcome \<Rightarrow> bool" where
  "successDespiteMark h key cached out \<longleftrightarrow>
     (\<forall>ev. ev \<in> set (handler_calls out) \<and> h ev = None \<longrightarrow>
        result out = Inr () \<and>
        marksOf (cache_calls out) = (if cached then [(key, ttl24h)] else []))"

text \<open>
  The backend that answers every \<open>IsProcessed\<close> call with \<open>(false, nil)\<close> and is otherwise
  the backend \<open>b\<close>, state changes of the lookup included.
\<close>

definition answeringUnprocessed :: "'c Cache \<Rightarrow> 'c Cache" where
  "answeringUnprocessed b =
     b\<lparr>isProcessed := (\<lambda>c now key. ((False, None), snd (isProcessed b c now key)))\<rparr>"

section \<open>Sample inputs\<close>

text \<open>
  Concrete inputs at which the theorems below are evaluated: an in-process cache that is
  empty and one that holds the key of the sample activity, a backend whose every call
  fails, an \<open>external\<close> activity of 1.5 ETH with the event it normalizes to, an ERC-721
  activity with an empty token id and one with a contract address and no token id, and a
  Solana transaction in which \<open>A\<close> is credited 5 lamports while \<open>B\<close> is debited 3 and
  \<open>C\<close> is debited 2.
\<close>

text \<open>
  The runtime choices of a \<open>MarkProcessed\<close> call: clock 0 and the order of the list.
\<close>

definition sampleEnv :: mark_env where
  "sampleEnv = \<lparr>evict_clock = 0, range_expired = [], range_any = []\<rparr>"

definition sampleActivity :: AlchemyActivity where
  "sampleActivity =
     \<lparr>BlockNum = ''0x10'',
      Hash = ''0xABCDEF0123456789abcdef0123456789abcdef0123456789abcdef0123456789'',
      FromAddress = ''0x1111111111111111111111111111111111111111'',
      ToAddress = ''0x2222222222222222222222222222222222222222'',
      Value = Some (Finite 3 (-1)),
      ERC721TokenID = None,
      Asset = ''ETH'',
      Category = ''external'',
      RawContract = None,
      TypeTraceAddress = None\<rparr>"

text \<open>
  The normalized hash of the sample activity, its dedup key.
\<close>

definition sampleKey :: string where
  "sampleKey = ''0xabcdef0123456789abcdef0123456789abcdef0123456789abcdef0123456789''"

text \<open>
  The event the sample activity normalizes to: 1.5 ETH is 1500000000000000000 wei.
\<close>

definition samplePA :: "bool \<Rightarrow> ProcessedActivity" where
  "samplePA internal =
     \<lparr>PTxHash = sampleKey,
      PFromAddress = ''0x1111111111111111111111111111111111111111'',
      PToAddress = ''0x2222222222222222222222222222222222222222'',
      PValue = 1500000000000000000, PCurrency = ''ETH'', PCategory = ''external'',
      PBlockNumber = 16, PNetwork = ''MAINNET'', PIsInternal = internal\<rparr>"

text \<open>
  A processor on the in-process cache, without configured tokens, with the handler \<open>h\<close>.
\<close>

definition sampleProcessor ::
  "(ProcessedActivity \<Rightarrow> string option) \<Rightarrow> (MemoryCache, string) Processor" where
  "sampleProcessor h =
     \<lparr>cache = Some (memoryCache sampleEnv), tokenAddresses = [], handler = Some h,
      chainID = ''eth-mainnet''\<rparr>"

definition emptyCache :: MemoryCache where
  "emptyCache = \<lparr>entries = [], maxSize = 10, enableLRU = True, accessOrder = []\<rparr>"

definition markedCache :: MemoryCache where
  "markedCache = \<lparr>entries = [(sampleKey, 100)], maxSize = 10, enableLRU = True,
                   accessOrder = [sampleKey]\<rparr>"

text \<open>
  A backend that is unavailable: both calls return an error and change nothing.
\<close>

definition failingCache :: "'c Cache" where
  "failingCache =
     \<lparr>isProcessed = (\<lambda>c now key. ((False, Some (CacheError ''unavailable'')), c)),
      markProcessed = (\<lambda>c now key ttl. (Some (CacheError ''unavailable''), c))\<rparr>"

definition emptyTokenIdActivity :: AlchemyActivity where
  "emptyTokenIdActivity =
     sampleActivity\<lparr>Value := None, ERC721TokenID := Some [], Category := ''erc721'',
                    RawContract := Some \<lparr>RawValue = [], Address = [], Decimals = None\<rparr>\<rparr>"

definition erc721ContractActivity :: AlchemyActivity where
  "erc721ContractActivity =
     sampleActivity\<lparr>Value := None, ERC721TokenID := None, Asset := ''NFT'',
                    Category := ''erc721'',
                    RawContract := Some \<lparr>RawValue = ''0x02'',
                                          Address = ''0x3333333333333333333333333333333333333333'',
                                          Decimals = None\<rparr>\<rparr>"

definition sampleMeta :: AlchemySolanaTxMeta where
  "sampleMeta =
     \<lparr>Fee = 0, PreBalances = [0, 10, 10], PostBalances = [5, 7, 8],
      InnerInstructions = [], InnerInstructionsNone = True, LogMessages = []\<rparr>"

definition sampleTx :: AlchemySolanaTransaction where
  "sampleTx =
     \<lparr>Signature = ''5VERv8NMvzbJMEkV8xnrLkEaWRtSz9CosKDYjCJjBRnb'',
      Transaction = [\<lparr>Message = [\<lparr>Instructions = [], AccountKeys = [''A'', ''B'', ''C'']\<rparr>]\<rparr>],
      Meta = [sampleMeta]\<rparr>"

definition sampleProcessedTx :: ProcessedTransaction where
  "sampleProcessedTx =
     \<lparr>PSignature = ''5VERv8NMvzbJMEkV8xnrLkEaWRtSz9CosKDYjCJjBRnb'', PSlot = 42,
      NativeTransfers = [\<lparr>FromUserAccount = ''B'', ToUserAccount = ''A'', Amount = 5\<rparr>],
      TokenTransfers = [], PFee = 0, Timestamp = 1700000000\<rparr>"

definition sampleSolanaProcessor ::
  "(ProcessedTransaction \<Rightarrow> string option) \<Rightarrow> MemoryCache SolanaProcessor" where
  "sampleSolanaProcessor g =
     \<lparr>sol_cache = Some (memoryCache sampleEnv),
      tokenMints = [(''USDC'', ''EPjFWdd5AufqSSqeM2qN1xzybapC8G4wEGGkZwyTDt1v'')],
      sol_handler = Some g, sol_chainID = ''sol-mainnet''\<rparr>"

section \<open>Properties of the cache\<close>


lemma map_of_MarkProcessed:
  "map_of (entries (snd (MarkProcessed env c now k ttl))) k = Some (now + ttl)"
  by (simp add: MarkProcessed_def Let_def update_conv')





lemma evict_fields [simp]: "maxSize (evict env c) = maxSize c" "enableLRU (evict env c) = enableLRU c"
  by (auto simp: evict_def split: list.splits)


lemma IsProcessed_fields [simp]:
  "maxSize (snd (IsProcessed c now k)) = maxSize c"
  "enableLRU (snd (IsProcessed c now k)) = enableLRU c"
  by (auto simp: IsProcessed_def split: option.splits)





lemma MarkProcessed_fields [simp]:
  "maxSize (snd (MarkProcessed env c now k ttl)) = maxSize c"
  "enableLRU (snd (MarkProcessed env c now k ttl)) = enableLRU c"
  by (auto simp: MarkProcessed_def Let_def)




lemma sweep_fields [simp]: "maxSize (sweep c now) = maxSize c" "enableLRU (sweep c now) = enableLRU c"
  by (auto simp: sweep_def)


lemma apply_call_fields [simp]: "maxSize (apply_call c x) = maxSize c" "enableLRU (apply_call c x) = enableLRU c"
  by (cases x; simp)+




text \<open>
  C3. Round trip on the in-process backend: whatever the cache held and whatever
  \<open>MarkProcessed\<close> evicted (any capacity, either mode, any iteration order), a lookup of
  the key just marked, made at any instant that is not after the expiry \<open>now + ttl\<close>,
  returns \<open>(true, nil)\<close>. For \<open>ttl > 0\<close> this covers the lookup made at once, at any
  \<open>now'\<close> from \<open>now\<close> up to \<open>now + ttl\<close>.
\<close>

theorem mark_then_is_processed:
  assumes "now' \<le> now + ttl"
  shows "fst (IsProcessed (snd (MarkProcessed env c now k ttl)) now' k) = (True, None)"
  using assms by (simp add: IsProcessed_def map_of_MarkProcessed)

text \<open>
  C3 at a concrete input: on a full non-LRU cache of capacity 1, marking \<open>b\<close> evicts
  \<open>a\<close>, and \<open>b\<close> is found.
\<close>

theorem mark_then_is_processed_witness:
  "(5::int) \<le> 5 + 10 \<and>
   fst (IsProcessed
          (snd (MarkProcessed \<lparr>evict_clock = 5, range_expired = [], range_any = []\<rparr>
                  \<lparr>entries = [(''a'', 100)], maxSize = 1, enableLRU = False, accessOrder = []\<rparr>
                  5 ''b'' 10))
          5 ''b'') = (True, None) \<and>
   entries (snd (MarkProcessed \<lparr>evict_clock = 5, range_expired = [], range_any = []\<rparr>
                  \<lparr>entries = [(''a'', 100)], maxSize = 1, enableLRU = False, accessOrder = []\<rparr>
                  5 ''b'' 10)) = [(''b'', 15)]"
proof -
  have h: "(5::int) \<le> 5 + 10" by simp
  have e: "entries (snd (MarkProcessed \<lparr>evict_clock = 5, range_expired = [], range_any = []\<rparr>
                  \<lparr>entries = [(''a'', 100)], maxSize = 1, enableLRU = False, accessOrder = []\<rparr>
                  5 ''b'' 10)) = [(''b'', 15)]"
    by (simp add: MarkProcessed_def evict_def evictWithoutLRU_def range_keys_def Let_def)
  show ?thesis using h e mark_then_is_processed [OF h] by blast
qed



text \<open>
  A key that was just marked is found by any lookup made no later than its expiry.
\<close>

lemma IsProcessed_after_Mark:
  "now' \<le> now + ttl \<Longrightarrow> fst (IsProcessed (snd (MarkProcessed env c now k ttl)) now' k) = (True, None)"
  by (simp add: IsProcessed_def map_of_MarkProcessed)

section \<open>Properties of the Ethereum normalizer\<close>

lemma consultCache_calls: "marksOf (snd (snd (consultCache ch st now k))) = []"
  by (cases ch) (simp_all add: consultCache_def split: prod.splits)

lemma deliver_handler_calls_le: "length (handler_calls (deliver ch h st now k ev)) \<le> 1"
  by (cases h; cases ch) (simp_all add: deliver_def split: option.splits)

lemma ProcessActivity_invalid_to:
  "validateEthereumAddress (ToAddress a) = Some e \<Longrightarrow>
   ProcessActivity p H st t1 t2 a =
     \<lparr>result = Inl (InvalidToAddress e), cache_state = st, handler_calls = [], cache_calls = []\<rparr>"
  by (simp add: ProcessActivity_def)

lemma ProcessActivity_invalid_from:
  "validateEthereumAddress (ToAddress a) = None \<Longrightarrow>
   validateEthereumAddress (FromAddress a) = Some e \<Longrightarrow>
   ProcessActivity p H st t1 t2 a =
     \<lparr>result = Inl (InvalidFromAddress e), cache_state = st, handler_calls = [], cache_calls = []\<rparr>"
  by (simp add: ProcessActivity_def)

lemma ProcessActivity_invalid_hash:
  "validateEthereumAddress (ToAddress a) = None \<Longrightarrow>
   validateEthereumAddress (FromAddress a) = None \<Longrightarrow>
   validateTransactionHash (normalizeTxHash (Hash a)) = Some e \<Longrightarrow>
   ProcessActivity p H st t1 t2 a =
     \<lparr>result = Inl (InvalidTransactionHash e), cache_state = st, handler_calls = [], cache_calls = []\<rparr>"
  by (simp add: ProcessActivity_def)

lemma ProcessActivity_valid:
  assumes "validateEthereumAddress (ToAddress a) = None"
          "validateEthereumAddress (FromAddress a) = None"
          "validateTransactionHash (normalizeTxHash (Hash a)) = None"
  shows "ProcessActivity p H st t1 t2 a =
     (case consultCache (cache p) st t1 (uniqueID a) of
        (hit, st1, lookups) \<Rightarrow>
          if hit then
            \<lparr>result = Inr (), cache_state = st1, handler_calls = [], cache_calls = lookups\<rparr>
          else
            (case extractActivity p H a of
               Inl e \<Rightarrow>
                 \<lparr>result = Inl e, cache_state = st1,
                  handler_calls = [], cache_calls = lookups\<rparr>
             | Inr None \<Rightarrow>
                 \<lparr>result = Inr (), cache_state = st1,
                  handler_calls = [], cache_calls = lookups\<rparr>
             | Inr (Some processedActivity) \<Rightarrow>
                 (let out = deliver (cache p) (handler p) st1 t2 (uniqueID a)
                              processedActivity
                  in out\<lparr>cache_calls := lookups @ cache_calls out\<rparr>)))"
  unfolding ProcessActivity_def by (simp only: assms option.case)

text \<open>The three ways a run that passed the first validations can end.\<close>

lemma ProcessActivity_hit:
  assumes "validateEthereumAddress (ToAddress a) = None"
          "validateEthereumAddress (FromAddress a) = None"
          "validateTransactionHash (normalizeTxHash (Hash a)) = None"
          "consultCache (cache p) st t1 (uniqueID a) = (True, st1, lookups)"
  shows "ProcessActivity p H st t1 t2 a =
     \<lparr>result = Inr (), cache_state = st1, handler_calls = [], cache_calls = lookups\<rparr>"
  by (simp add: ProcessActivity_valid[OF assms(1-3)] assms(4))

lemma ProcessActivity_miss:
  assumes "validateEthereumAddress (ToAddress a) = None"
          "validateEthereumAddress (FromAddress a) = None"
          "validateTransactionHash (normalizeTxHash (Hash a)) = None"
          "consultCache (cache p) st t1 (uniqueID a) = (False, st1, lookups)"
  shows "ProcessActivity p H st t1 t2 a =
            (case extractActivity p H a of
               Inl e \<Rightarrow>
                 \<lparr>result = Inl e, cache_state = st1,
                  handler_calls = [], cache_calls = lookups\<rparr>
             | Inr None \<Rightarrow>
                 \<lparr>result = Inr (), cache_state = st1,
                  handler_calls = [], cache_calls = lookups\<rparr>
             | Inr (Some processedActivity) \<Rightarrow>
                 (let out = deliver (cache p) (handler p) st1 t2 (uniqueID a)
                              processedActivity
                  in out\<lparr>cache_calls := lookups @ cache_calls out\<rparr>))"
  by (simp add: ProcessActivity_valid[OF assms(1-3)] assms(4))

lemma ProcessActivity_invalid:
  assumes "validateEthereumAddress (ToAddress a) \<noteq> None \<or>
           validateEthereumAddress (FromAddress a) \<noteq> None \<or>
           validateTransactionHash (normalizeTxHash (Hash a)) \<noteq> None"
  shows "(\<exists>e. result (ProcessActivity p H st t1 t2 a) = Inl e \<and> isValidationError e) \<and>
         handler_calls (ProcessActivity p H st t1 t2 a) = [] \<and>
         cache_calls (ProcessActivity p H st t1 t2 a) = [] \<and>
         cache_state (ProcessActivity p H st t1 t2 a) = st"
proof (cases "validateEthereumAddress (ToAddress a)")
  case (Some e)
  show ?thesis by (simp add: ProcessActivity_invalid_to[OF Some])
next
  case to: None
  show ?thesis
  proof (cases "validateEthereumAddress (FromAddress a)")
    case (Some e)
    show ?thesis by (simp add: ProcessActivity_invalid_from[OF to Some])
  next
    case frm: None
    with to assms obtain e where "validateTransactionHash (normalizeTxHash (Hash a)) = Some e"
      by auto
    then show ?thesis by (simp add: ProcessActivity_invalid_hash[OF to frm])
  qed
qed

lemma extract_invalid_block:
  "validateBlockNumber (BlockNum a) = Some e \<Longrightarrow> extractActivity p H a = Inl (InvalidBlockNumber e)"
  by (simp add: extractActivity_def)

lemma consultCache_shape:
  "\<exists>hit st1 lookups. consultCache ch st now k = (hit, st1, lookups) \<and> marksOf lookups = []"
  by (cases ch) (auto simp: consultCache_def split: prod.splits)

text \<open>
  C5 (as amended). Validation and deduplication in \<open>ProcessActivity\<close>. An activity
  whose to-address, from-address or hash fails validation returns a validation error with
  no handler call and no cache call at all, whatever the cache holds. The block number is
  validated only after the cache consult: an activity whose block number is empty or not
  hexadecimal never reaches the handler and never marks the cache, and it returns a
  validation error unless its addresses and hash are valid and the cache reports its
  dedup key as processed; then the run is a skip and returns nil.
\<close>

theorem validation_before_dedup:
  "(validateEthereumAddress (ToAddress a) \<noteq> None \<or>
    validateEthereumAddress (FromAddress a) \<noteq> None \<or>
    validateTransactionHash (normalizeTxHash (Hash a)) \<noteq> None \<longrightarrow>
      (\<exists>e. result (ProcessActivity p H st t1 t2 a) = Inl e \<and> isValidationError e) \<and>
      handler_calls (ProcessActivity p H st t1 t2 a) = [] \<and>
      cache_calls (ProcessActivity p H st t1 t2 a) = [] \<and>
      cache_state (ProcessActivity p H st t1 t2 a) = st) \<and>
   (validateBlockNumber (BlockNum a) \<noteq> None \<longrightarrow>
      handler_calls (ProcessActivity p H st t1 t2 a) = [] \<and>
      marksOf (cache_calls (ProcessActivity p H st t1 t2 a)) = [] \<and>
      (if validateEthereumAddress (ToAddress a) = None \<and>
          validateEthereumAddress (FromAddress a) = None \<and>
          validateTransactionHash (normalizeTxHash (Hash a)) = None \<and>
          fst (consultCache (cache p) st t1 (uniqueID a))
       then result (ProcessActivity p H st t1 t2 a) = Inr ()
       else (\<exists>e. result (ProcessActivity p H st t1 t2 a) = Inl e \<and> isValidationError e)))"
proof -
  let ?out = "ProcessActivity p H st t1 t2 a"
  let ?valid = "validateEthereumAddress (ToAddress a) = None \<and>
          validateEthereumAddress (FromAddress a) = None \<and>
          validateTransactionHash (normalizeTxHash (Hash a)) = None"
  have front: "\<not> ?valid \<Longrightarrow>
      (\<exists>e. result ?out = Inl e \<and> isValidationError e) \<and>
      handler_calls ?out = [] \<and> cache_calls ?out = [] \<and> cache_state ?out = st"
    by (rule ProcessActivity_invalid) simp
  have block: "handler_calls ?out = [] \<and> marksOf (cache_calls ?out) = [] \<and>
      (if validateEthereumAddress (ToAddress a) = None \<and>
          validateEthereumAddress (FromAddress a) = None \<and>
          validateTransactionHash (normalizeTxHash (Hash a)) = None \<and>
          fst (consultCache (cache p) st t1 (uniqueID a))
       then result ?out = Inr ()
       else (\<exists>e. result ?out = Inl e \<and> isValidationError e))"
    if b: "validateBlockNumber (BlockNum a) \<noteq> None"
  proof (cases ?valid)
    case False
    then have "\<not> (validateEthereumAddress (ToAddress a) = None \<and>
          validateEthereumAddress (FromAddress a) = None \<and>
          validateTransactionHash (normalizeTxHash (Hash a)) = None \<and>
          fst (consultCache (cache p) st t1 (uniqueID a)))" by auto
    then show ?thesis using front[OF False] by (simp only: if_False) simp
  next
    case True
    from b obtain e where e: "extractActivity p H a = Inl (InvalidBlockNumber e)"
      using extract_invalid_block by blast
    obtain hit st1 lookups where c: "consultCache (cache p) st t1 (uniqueID a) = (hit, st1, lookups)"
      and m: "marksOf lookups = []"
      using consultCache_shape[of "cache p" st t1 "uniqueID a"] by blast
    show ?thesis
    proof (cases hit)
      case h: True
      have "?out = \<lparr>result = Inr (), cache_state = st1, handler_calls = [], cache_calls = lookups\<rparr>"
        using ProcessActivity_hit[of a p st t1 st1 lookups H t2] True c h by simp
      then show ?thesis using True c h m by simp
    next
      case h: False
      have "?out = \<lparr>result = Inl (InvalidBlockNumber e), cache_state = st1,
                  handler_calls = [], cache_calls = lookups\<rparr>"
        using ProcessActivity_miss[of a p st t1 st1 lookups H t2] True c h e by simp
      then show ?thesis using True c h m by simp
    qed
  qed
  have p1: "validateEthereumAddress (ToAddress a) \<noteq> None \<or>
    validateEthereumAddress (FromAddress a) \<noteq> None \<or>
    validateTransactionHash (normalizeTxHash (Hash a)) \<noteq> None \<longrightarrow>
      (\<exists>e. result ?out = Inl e \<and> isValidationError e) \<and>
      handler_calls ?out = [] \<and> cache_calls ?out = [] \<and> cache_state ?out = st"
    by (rule impI) (rule ProcessActivity_invalid)
  show ?thesis by (rule conjI[OF p1]) (rule impI, rule block)
qed

lemma sample_front_valid:
  assumes "ToAddress a = ToAddress sampleActivity" "FromAddress a = FromAddress sampleActivity"
    "Hash a = Hash sampleActivity"
  shows "validateEthereumAddress (ToAddress a) = None"
    "validateEthereumAddress (FromAddress a) = None"
    "validateTransactionHash (normalizeTxHash (Hash a)) = None"
    "normalizeTxHash (Hash a) = sampleKey"
  unfolding assms
  by (simp_all add: sampleActivity_def sampleKey_def validateEthereumAddress_def validateTransactionHash_def
      normalizeTxHash_def ToLower_def toLowerChar_def TrimPrefix_def HasPrefix_def isLowerHex_def
      char_of_def bit_Suc_0_iff)

lemma consultCache_memory:
  "consultCache (Some (memoryCache env)) c now k =
     (fst (fst (IsProcessed c now k)), snd (IsProcessed c now k), [Lookup k])"
  by (auto simp: consultCache_def memoryCache_def IsProcessed_def split: option.splits prod.splits)

lemma scaledAmount_zero: "scaledAmount prec (Finite 0 e) y = Inr (Some 0)"
  by (simp add: scaledAmount_def bigFloatMul_def roundToPrec_def bigFloatInt_def bitLen.simps)

lemma classify_external_zero:
  "ToLower (Category a) = ''external'' \<Longrightarrow> Value a = Some (Finite 0 e) \<Longrightarrow>
   \<exists>net. classifyActivity p H a = Classified 0 ''ETH'' net"
  by (simp add: classifyActivity_def scaledAmount_zero Let_def)

lemma extract_external_zero:
  assumes "ToLower (Category a) = ''external''" "Value a = Some (Finite 0 e)"
    "validateBlockNumber (BlockNum a) = None"
  shows "extractActivity p H a =
           (if ParseUint (TrimPrefix (BlockNum a) ''0x'') 16 = None
            then Inl FailedToParseBlockNumber else Inr None)"
proof -
  from classify_external_zero[OF assms(1,2)] obtain net where
    "classifyActivity p H a = Classified 0 ''ETH'' net" by blast
  then show ?thesis using assms(3) by (simp add: extractActivity_def split: option.splits)
qed

text \<open>
  C5 as stated fails for the block number: with the key of the sample activity marked in
  the cache, the activity with an empty block number fails \<open>validateBlockNumber\<close> and yet
  \<open>ProcessActivity\<close> returns nil, not a validation error.
\<close>

theorem validation_before_dedup_counterexample:
  "validateBlockNumber (BlockNum (sampleActivity\<lparr>BlockNum := []\<rparr>)) = Some BlockNumberIsEmpty \<and>
   result (ProcessActivity (sampleProcessor (\<lambda>ev. None)) (\<lambda>s. s) markedCache 5 6
             (sampleActivity\<lparr>BlockNum := []\<rparr>)) = Inr ()"
proof -
  let ?a = "sampleActivity\<lparr>BlockNum := []\<rparr>"
  have v: "validateEthereumAddress (ToAddress ?a) = None"
    "validateEthereumAddress (FromAddress ?a) = None"
    "validateTransactionHash (normalizeTxHash (Hash ?a)) = None"
    and k: "normalizeTxHash (Hash ?a) = sampleKey"
    by (rule sample_front_valid; simp)+
  have u: "uniqueID ?a = sampleKey" using k by (simp add: uniqueID_def sampleActivity_def)
  have c: "consultCache (cache (sampleProcessor (\<lambda>ev. None))) markedCache 5 (uniqueID ?a) =
             (True, markedCache\<lparr>accessOrder := [sampleKey]\<rparr>, [Lookup sampleKey])"
    unfolding u by (simp add: sampleProcessor_def consultCache_memory IsProcessed_def markedCache_def
        updateAccessOrder_def)
  have "validateBlockNumber (BlockNum ?a) = Some BlockNumberIsEmpty"
    by (simp add: validateBlockNumber_def)
  then show ?thesis by (simp add: ProcessActivity_hit[OF v c])
qed

text \<open>
  C5 (as amended) at concrete inputs: a to-address of two hex digits is rejected before
  any cache call, although the cache holds the key; an empty block number is rejected on
  an empty cache.
\<close>

theorem validation_before_dedup_witness:
  "validateEthereumAddress (ToAddress (sampleActivity\<lparr>ToAddress := ''0x12''\<rparr>)) \<noteq> None \<and>
   result (ProcessActivity (sampleProcessor (\<lambda>ev. None)) (\<lambda>s. s) markedCache 5 6
             (sampleActivity\<lparr>ToAddress := ''0x12''\<rparr>)) = Inl (InvalidToAddress (InvalidAddressLength 2)) \<and>
   cache_calls (ProcessActivity (sampleProcessor (\<lambda>ev. None)) (\<lambda>s. s) markedCache 5 6
             (sampleActivity\<lparr>ToAddress := ''0x12''\<rparr>)) = [] \<and>
   validateBlockNumber (BlockNum (sampleActivity\<lparr>BlockNum := []\<rparr>)) \<noteq> None \<and>
   handler_calls (ProcessActivity (sampleProcessor (\<lambda>ev. None)) (\<lambda>s. s) emptyCache 5 6
             (sampleActivity\<lparr>BlockNum := []\<rparr>)) = [] \<and>
   result (ProcessActivity (sampleProcessor (\<lambda>ev. None)) (\<lambda>s. s) emptyCache 5 6
             (sampleActivity\<lparr>BlockNum := []\<rparr>)) = Inl (InvalidBlockNumber BlockNumberIsEmpty)"
proof -
  let ?p = "sampleProcessor (\<lambda>ev. None)"
  let ?a = "sampleActivity\<lparr>ToAddress := ''0x12''\<rparr>"
  let ?b = "sampleActivity\<lparr>BlockNum := []\<rparr>"
  have a1: "validateEthereumAddress (ToAddress ?a) = Some (InvalidAddressLength 2)"
    by (simp add: validateEthereumAddress_def ToLower_def toLowerChar_def TrimPrefix_def HasPrefix_def)
  have a2: "result (ProcessActivity ?p (\<lambda>s. s) markedCache 5 6 ?a) =
              Inl (InvalidToAddress (InvalidAddressLength 2))"
    by (simp add: ProcessActivity_invalid_to[OF a1])
  have b1: "validateBlockNumber (BlockNum ?b) = Some BlockNumberIsEmpty"
    by (simp add: validateBlockNumber_def)
  have v: "validateEthereumAddress (ToAddress ?b) = None"
    "validateEthereumAddress (FromAddress ?b) = None"
    "validateTransactionHash (normalizeTxHash (Hash ?b)) = None"
    by (rule sample_front_valid; simp)+
  have c: "consultCache (cache ?p) emptyCache 5 (uniqueID ?b) = (False, emptyCache, [Lookup (uniqueID ?b)])"
    by (simp add: sampleProcessor_def consultCache_memory IsProcessed_def emptyCache_def)
  have b2: "result (ProcessActivity ?p (\<lambda>s. s) emptyCache 5 6 ?b) =
              Inl (InvalidBlockNumber BlockNumberIsEmpty)"
    by (simp add: ProcessActivity_miss[OF v c] extract_invalid_block[OF b1])
  from validation_before_dedup[of ?a ?p "\<lambda>s. s" markedCache 5 6]
    validation_before_dedup[of ?b ?p "\<lambda>s. s" emptyCache 5 6] a1 a2 b1 b2
  show ?thesis by simp
qed

text \<open>
  C8 (as amended). Zero-amount suppression: an \<open>external\<close> activity whose value is
  exactly 0 and which passes the four validators never reaches the handler and never
  marks the cache, which is left as the \<open>IsProcessed\<close> lookup left it. The run returns nil
  when the cache reports the key as processed or the block number parses as an unsigned
  64-bit hexadecimal number; otherwise it returns the error of the block-number parse.
\<close>

theorem zero_amount_suppressed:
  assumes "validateEthereumAddress (ToAddress a) = None"
    and "validateEthereumAddress (FromAddress a) = None"
    and "validateTransactionHash (normalizeTxHash (Hash a)) = None"
    and "validateBlockNumber (BlockNum a) = None"
    and "ToLower (Category a) = ''external''"
    and "Value a = Some (Finite 0 e)"
  shows "handler_calls (ProcessActivity p H st t1 t2 a) = [] \<and>
         marksOf (cache_calls (ProcessActivity p H st t1 t2 a)) = [] \<and>
         cache_state (ProcessActivity p H st t1 t2 a) =
           fst (snd (consultCache (cache p) st t1 (uniqueID a))) \<and>
         result (ProcessActivity p H st t1 t2 a) =
           (if fst (consultCache (cache p) st t1 (uniqueID a)) \<or>
               ParseUint (TrimPrefix (BlockNum a) ''0x'') 16 \<noteq> None
            then Inr () else Inl FailedToParseBlockNumber)"
proof -
  obtain hit st1 lookups where c: "consultCache (cache p) st t1 (uniqueID a) = (hit, st1, lookups)"
    and m: "marksOf lookups = []"
    using consultCache_shape[of "cache p" st t1 "uniqueID a"] by blast
  show ?thesis
  proof (cases hit)
    case True
    then show ?thesis using c m ProcessActivity_hit[OF assms(1-3), of p st t1 st1 lookups H t2]
      by simp
  next
    case False
    then show ?thesis
      using c m ProcessActivity_miss[OF assms(1-3), of p st t1 st1 lookups H t2]
        extract_external_zero[OF assms(5,6,4), of p H]
      by simp
  qed
qed

lemma sample_miss:
  "consultCache (cache (sampleProcessor h)) emptyCache t k = (False, emptyCache, [Lookup k])"
  by (simp add: sampleProcessor_def consultCache_memory IsProcessed_def emptyCache_def)

text \<open>
  C8 as stated fails in its return value: the block number \<open>0x10000000000000000\<close> passes
  \<open>validateBlockNumber\<close> and does not fit 64 bits, so the zero-value activity passes all
  four validators and \<open>ProcessActivity\<close> returns an error, not success.
\<close>

theorem zero_amount_suppressed_counterexample:
  "validateEthereumAddress (ToAddress (sampleActivity\<lparr>BlockNum := ''0x10000000000000000'', Value := Some (Finite 0 0)\<rparr>)) = None \<and>
   validateEthereumAddress (FromAddress (sampleActivity\<lparr>BlockNum := ''0x10000000000000000'', Value := Some (Finite 0 0)\<rparr>)) = None \<and>
   validateTransactionHash (normalizeTxHash (Hash (sampleActivity\<lparr>BlockNum := ''0x10000000000000000'', Value := Some (Finite 0 0)\<rparr>))) = None \<and>
   validateBlockNumber (BlockNum (sampleActivity\<lparr>BlockNum := ''0x10000000000000000'', Value := Some (Finite 0 0)\<rparr>)) = None \<and>
   ToLower (Category (sampleActivity\<lparr>BlockNum := ''0x10000000000000000'', Value := Some (Finite 0 0)\<rparr>)) = ''external'' \<and>
   result (ProcessActivity (sampleProcessor (\<lambda>ev. None)) (\<lambda>s. s) emptyCache 5 6
             (sampleActivity\<lparr>BlockNum := ''0x10000000000000000'', Value := Some (Finite 0 0)\<rparr>)) =
     Inl FailedToParseBlockNumber"
proof -
  let ?a = "sampleActivity\<lparr>BlockNum := ''0x10000000000000000'', Value := Some (Finite 0 0)\<rparr>"
  have v: "validateEthereumAddress (ToAddress ?a) = None"
    "validateEthereumAddress (FromAddress ?a) = None"
    "validateTransactionHash (normalizeTxHash (Hash ?a)) = None"
    by (rule sample_front_valid; simp)+
  have b: "validateBlockNumber (BlockNum ?a) = None"
    by (simp add: validateBlockNumber_def ToLower_def toLowerChar_def TrimPrefix_def HasPrefix_def
        isLowerHex_def)
  have c: "ToLower (Category ?a) = ''external''"
    by (simp add: sampleActivity_def ToLower_def toLowerChar_def)
  have z: "Value ?a = Some (Finite 0 0)" by simp
  have n: "ParseUint (TrimPrefix ''0x10000000000000000'' ''0x'') 16 = None"
    by (simp add: ParseUint_def TrimPrefix_def HasPrefix_def digitVal_def)
  have "result (ProcessActivity (sampleProcessor (\<lambda>ev. None)) (\<lambda>s. s) emptyCache 5 6 ?a) =
          Inl FailedToParseBlockNumber"
    by (simp add: ProcessActivity_miss[OF v sample_miss] extract_external_zero[OF c z b] n)
  with v b c show ?thesis by simp
qed

text \<open>
  C8 (as amended) at a concrete input: the sample activity with value 0 on an empty cache
  returns nil after the lookup alone.
\<close>

theorem zero_amount_suppressed_witness:
  "validateEthereumAddress (ToAddress (sampleActivity\<lparr>Value := Some (Finite 0 0)\<rparr>)) = None \<and>
   validateEthereumAddress (FromAddress (sampleActivity\<lparr>Value := Some (Finite 0 0)\<rparr>)) = None \<and>
   validateTransactionHash (normalizeTxHash (Hash (sampleActivity\<lparr>Value := Some (Finite 0 0)\<rparr>))) = None \<and>
   validateBlockNumber (BlockNum (sampleActivity\<lparr>Value := Some (Finite 0 0)\<rparr>)) = None \<and>
   ToLower (Category (sampleActivity\<lparr>Value := Some (Finite 0 0)\<rparr>)) = ''external'' \<and>
   Value (sampleActivity\<lparr>Value := Some (Finite 0 0)\<rparr>) = Some (Finite 0 0) \<and>
   ProcessActivity (sampleProcessor (\<lambda>ev. None)) (\<lambda>s. s) emptyCache 5 6
             (sampleActivity\<lparr>Value := Some (Finite 0 0)\<rparr>) =
     \<lparr>result = Inr (), cache_state = emptyCache, handler_calls = [],
      cache_calls = [Lookup sampleKey]\<rparr>"
proof -
  let ?a = "sampleActivity\<lparr>Value := Some (Finite 0 0)\<rparr>"
  let ?p = "sampleProcessor (\<lambda>ev. None)"
  have v: "validateEthereumAddress (ToAddress ?a) = None"
    "validateEthereumAddress (FromAddress ?a) = None"
    "validateTransactionHash (normalizeTxHash (Hash ?a)) = None"
    and k: "normalizeTxHash (Hash ?a) = sampleKey"
    by (rule sample_front_valid; simp)+
  have u: "uniqueID ?a = sampleKey" using k by (simp add: uniqueID_def sampleActivity_def)
  have b: "validateBlockNumber (BlockNum ?a) = None"
    by (simp add: sampleActivity_def validateBlockNumber_def ToLower_def toLowerChar_def
        TrimPrefix_def HasPrefix_def isLowerHex_def)
  have c: "ToLower (Category ?a) = ''external''"
    by (simp add: sampleActivity_def ToLower_def toLowerChar_def)
  have z: "Value ?a = Some (Finite 0 0)" by simp
  have n: "ParseUint (TrimPrefix (BlockNum sampleActivity) ''0x'') 16 = Some 16"
    by (simp add: sampleActivity_def ParseUint_def TrimPrefix_def HasPrefix_def digitVal_def)
  have o: "ProcessActivity ?p (\<lambda>s. s) emptyCache 5 6 ?a =
     \<lparr>result = Inr (), cache_state = emptyCache, handler_calls = [],
      cache_calls = [Lookup sampleKey]\<rparr>"
    by (simp add: ProcessActivity_miss[OF v sample_miss] extract_external_zero[OF c z b] n u)
  from zero_amount_suppressed[OF v b c z, of ?p "\<lambda>s. s" emptyCache 5 6] o v b c z
  show ?thesis by simp
qed

lemma classify_erc721:
  assumes "ToLower (Category a) = ''erc721''"
    and "case RawContract a of None \<Rightarrow> True | Some rc \<Rightarrow> Address rc = []"
  shows "classifyActivity p H a =
     (case (ERC721TokenID a, RawContract a) of
        (Some tokenID, Some rc) \<Rightarrow>
          Classified 1 (resolveCurrency p H a rc)
            (if isInternalTx a
             then (if chainID p = ''eth-testnet'' then ''ERC-721-INTERNAL-TESTNET'' else ''ERC-721-INTERNAL'')
             else (if chainID p = ''eth-testnet'' then ''ERC-721-TESTNET'' else ''ERC-721''))
      | _ \<Rightarrow> Skipped)"
  using assms by (cases "RawContract a") (simp_all add: classifyActivity_def Let_def)

lemma deliver_handler_calls:
  "handler_calls (deliver ch h st now k ev) = (if h = None then [] else [ev])"
  by (cases h; cases ch) (auto simp: deliver_def split: option.splits)

lemma deliver_result:
  "result (deliver ch h st now k ev) =
     (case h of None \<Rightarrow> Inr ()
      | Some f \<Rightarrow> (case f ev of None \<Rightarrow> Inr () | Some err \<Rightarrow> Inl (HandlerError err)))"
  by (cases h; cases ch) (auto simp: deliver_def split: option.splits)

lemma deliver_failed:
  "h = Some f \<Longrightarrow> f ev = Some err \<Longrightarrow>
   deliver ch h st now k ev =
     \<lparr>result = Inl (HandlerError err), cache_state = st, handler_calls = [ev], cache_calls = []\<rparr>"
  by (simp add: deliver_def)

lemma deliver_succeeded:
  "h = Some f \<Longrightarrow> f ev = None \<Longrightarrow>
   deliver ch h st now k ev =
     (case ch of
        None \<Rightarrow> \<lparr>result = Inr (), cache_state = st, handler_calls = [ev], cache_calls = []\<rparr>
      | Some backend \<Rightarrow>
          \<lparr>result = Inr (), cache_state = snd (markProcessed backend st now k ttl24h),
           handler_calls = [ev], cache_calls = [Mark k ttl24h]\<rparr>)"
  by (cases ch) (simp_all add: deliver_def)

lemma deliver_marks:
  "marksOf (cache_calls (deliver ch h st now k ev)) = [] \<or>
   marksOf (cache_calls (deliver ch h st now k ev)) = [(k, ttl24h)] \<and>
   result (deliver ch h st now k ev) = Inr () \<and>
   (\<forall>f. h = Some f \<longrightarrow> f ev = None)"
  by (cases h; cases ch) (auto simp: deliver_def split: option.splits)

text \<open>Every run of \<open>ProcessActivity\<close> either ends before the handler or delivers.\<close>

lemma ProcessActivity_cases:
  "(handler_calls (ProcessActivity p H st t1 t2 a) = [] \<and>
    marksOf (cache_calls (ProcessActivity p H st t1 t2 a)) = []) \<or>
   (\<exists>pa st1 lookups.
      validateEthereumAddress (ToAddress a) = None \<and>
      validateEthereumAddress (FromAddress a) = None \<and>
      validateTransactionHash (normalizeTxHash (Hash a)) = None \<and>
      consultCache (cache p) st t1 (uniqueID a) = (False, st1, lookups) \<and>
      marksOf lookups = [] \<and>
      extractActivity p H a = Inr (Some pa) \<and>
      ProcessActivity p H st t1 t2 a =
        (deliver (cache p) (handler p) st1 t2 (uniqueID a) pa)
          \<lparr>cache_calls := lookups @ cache_calls (deliver (cache p) (handler p) st1 t2 (uniqueID a) pa)\<rparr>)"
proof (cases "validateEthereumAddress (ToAddress a) = None \<and>
      validateEthereumAddress (FromAddress a) = None \<and>
      validateTransactionHash (normalizeTxHash (Hash a)) = None")
  case False
  then have "validateEthereumAddress (ToAddress a) \<noteq> None \<or>
           validateEthereumAddress (FromAddress a) \<noteq> None \<or>
           validateTransactionHash (normalizeTxHash (Hash a)) \<noteq> None" by auto
  from ProcessActivity_invalid[OF this, of p H st t1 t2] show ?thesis by simp
next
  case True
  then have v: "validateEthereumAddress (ToAddress a) = None"
    "validateEthereumAddress (FromAddress a) = None"
    "validateTransactionHash (normalizeTxHash (Hash a)) = None" by simp_all
  obtain hit st1 lookups where c: "consultCache (cache p) st t1 (uniqueID a) = (hit, st1, lookups)"
    and m: "marksOf lookups = []"
    using consultCache_shape[of "cache p" st t1 "uniqueID a"] by blast
  show ?thesis
  proof (cases hit)
    case h: True
    show ?thesis using ProcessActivity_hit[OF v, of p st t1 st1 lookups H t2] c h m by simp
  next
    case h: False
    note miss = ProcessActivity_miss[OF v, of p st t1 st1 lookups H t2]
    show ?thesis
    proof (cases "extractActivity p H a")
      case (Inl e)
      then show ?thesis using miss c h m by simp
    next
      case (Inr r)
      show ?thesis
      proof (cases r)
        case None
        then show ?thesis using miss Inr c h m by simp
      next
        case (Some pa)
        then have "ProcessActivity p H st t1 t2 a =
          (deliver (cache p) (handler p) st1 t2 (uniqueID a) pa)
            \<lparr>cache_calls := lookups @ cache_calls (deliver (cache p) (handler p) st1 t2 (uniqueID a) pa)\<rparr>"
          using miss Inr c h by (simp add: Let_def)
        then show ?thesis using v c h m Inr Some
          by (intro disjI2 exI[of _ pa] exI[of _ st1] exI[of _ lookups]) simp
      qed
    qed
  qed
qed

lemma handler_calls_update [simp]:
  "handler_calls (out\<lparr>cache_calls := x\<rparr>) = handler_calls out"
  "result (out\<lparr>cache_calls := x\<rparr>) = result out"
  "cache_state (out\<lparr>cache_calls := x\<rparr>) = cache_state out"
  by simp_all

lemma extract_erc721:
  assumes "ToLower (Category a) = ''erc721''"
    and "case RawContract a of None \<Rightarrow> True | Some rc \<Rightarrow> Address rc = []"
    and "extractActivity p H a = Inr (Some pa)"
  shows "PValue pa = 1 \<and> ERC721TokenID a \<noteq> None \<and> RawContract a \<noteq> None"
  using assms(3) unfolding extractActivity_def classify_erc721[OF assms(1,2)]
  by (auto split: option.splits if_splits)

lemma extract_erc721_present:
  assumes "ToLower (Category a) = ''erc721''"
    and "case RawContract a of None \<Rightarrow> True | Some rc \<Rightarrow> Address rc = []"
    and "ERC721TokenID a \<noteq> None" "RawContract a \<noteq> None"
    and "validateBlockNumber (BlockNum a) = None"
    and "ParseUint (TrimPrefix (BlockNum a) ''0x'') 16 \<noteq> None"
  shows "\<exists>pa. extractActivity p H a = Inr (Some pa) \<and> PValue pa = 1"
  using assms(3-6) unfolding extractActivity_def classify_erc721[OF assms(1,2)]
  by (auto split: option.splits if_splits)

text \<open>
  The \<open>erc721\<close> branch of \<open>ProcessActivity\<close>, for the activities that reach it (the raw
  contract is absent or has an empty address): every event handed to the handler has
  amount 1; the activity is skipped, with no handler call and no cache mark, when the
  token-id field or the raw contract is absent; and with both present, valid fields, no
  cache hit and a handler, exactly one event, of amount 1, is handed to the handler. The
  branch tests the token id against nil only.
\<close>

lemma erc721_branch_when_reached:
  assumes "ToLower (Category a) = ''erc721''"
    and "case RawContract a of None \<Rightarrow> True | Some rc \<Rightarrow> Address rc = []"
  shows "(\<forall>pa \<in> set (handler_calls (ProcessActivity p H st t1 t2 a)). PValue pa = 1) \<and>
         (ERC721TokenID a = None \<or> RawContract a = None \<longrightarrow>
            handler_calls (ProcessActivity p H st t1 t2 a) = [] \<and>
            marksOf (cache_calls (ProcessActivity p H st t1 t2 a)) = []) \<and>
         (ERC721TokenID a \<noteq> None \<and> RawContract a \<noteq> None \<and>
          validateEthereumAddress (ToAddress a) = None \<and>
          validateEthereumAddress (FromAddress a) = None \<and>
          validateTransactionHash (normalizeTxHash (Hash a)) = None \<and>
          validateBlockNumber (BlockNum a) = None \<and>
          ParseUint (TrimPrefix (BlockNum a) ''0x'') 16 \<noteq> None \<and>
          \<not> fst (consultCache (cache p) st t1 (uniqueID a)) \<and>
          handler p \<noteq> None \<longrightarrow>
            (\<exists>pa. handler_calls (ProcessActivity p H st t1 t2 a) = [pa] \<and> PValue pa = 1))"
proof -
  let ?out = "ProcessActivity p H st t1 t2 a"
  have run: "(handler_calls ?out = [] \<and> marksOf (cache_calls ?out) = []) \<or>
    (\<exists>pa. extractActivity p H a = Inr (Some pa) \<and> set (handler_calls ?out) \<subseteq> {pa})"
    using ProcessActivity_cases[of p H st t1 t2 a]
    by (auto simp: deliver_handler_calls split: if_splits)
  have p1: "\<forall>pa \<in> set (handler_calls ?out). PValue pa = 1"
    using run extract_erc721[OF assms, where p=p and H=H] by auto
  have p2: "ERC721TokenID a = None \<or> RawContract a = None \<longrightarrow>
            handler_calls ?out = [] \<and> marksOf (cache_calls ?out) = []"
    using run extract_erc721[OF assms, where p=p and H=H] by auto
  have p3: "\<exists>pa. handler_calls ?out = [pa] \<and> PValue pa = 1"
    if pre: "ERC721TokenID a \<noteq> None \<and> RawContract a \<noteq> None \<and>
          validateEthereumAddress (ToAddress a) = None \<and>
          validateEthereumAddress (FromAddress a) = None \<and>
          validateTransactionHash (normalizeTxHash (Hash a)) = None \<and>
          validateBlockNumber (BlockNum a) = None \<and>
          ParseUint (TrimPrefix (BlockNum a) ''0x'') 16 \<noteq> None \<and>
          \<not> fst (consultCache (cache p) st t1 (uniqueID a)) \<and>
          handler p \<noteq> None"
  proof -
    from pre have v: "validateEthereumAddress (ToAddress a) = None"
      "validateEthereumAddress (FromAddress a) = None"
      "validateTransactionHash (normalizeTxHash (Hash a)) = None" by simp_all
    from pre obtain pa where pa: "extractActivity p H a = Inr (Some pa)" "PValue pa = 1"
      using extract_erc721_present[OF assms, of p H] by auto
    obtain st1 lookups where c: "consultCache (cache p) st t1 (uniqueID a) = (False, st1, lookups)"
      using pre by (cases "consultCache (cache p) st t1 (uniqueID a)") auto
    have "handler_calls ?out = [pa]"
      using pre by (simp add: ProcessActivity_miss[OF v c] pa Let_def deliver_handler_calls)
    with pa show ?thesis by simp
  qed
  show ?thesis by (intro conjI) (rule p1, rule p2, rule impI, rule p3)
qed

lemma sample_fields:
  "handler (sampleProcessor h) = Some h"
  "cache (sampleProcessor h) = Some (memoryCache sampleEnv)"
  by (simp_all add: sampleProcessor_def)

lemma sample_block:
  assumes "BlockNum a = BlockNum sampleActivity"
  shows "validateBlockNumber (BlockNum a) = None"
    "ParseUint (TrimPrefix (BlockNum a) ''0x'') 16 = Some 16"
  unfolding assms
  by (simp_all add: sampleActivity_def validateBlockNumber_def ToLower_def toLowerChar_def
      TrimPrefix_def HasPrefix_def isLowerHex_def ParseUint_def digitVal_def)

lemma emptyTokenId_extract:
  "extractActivity (sampleProcessor h) (\<lambda>s. s) (emptyTokenIdActivity\<lparr>ERC721TokenID := tok\<rparr>) =
     (case tok of
        None \<Rightarrow> Inr None
      | Some t \<Rightarrow>
          Inr (Some \<lparr>PTxHash = sampleKey,
                      PFromAddress = ''0x1111111111111111111111111111111111111111'',
                      PToAddress = ''0x2222222222222222222222222222222222222222'',
                      PValue = 1, PCurrency = ''ETH'', PCategory = ''erc721'',
                      PBlockNumber = 16, PNetwork = ''ERC-721'', PIsInternal = False\<rparr>))"
proof -
  let ?a = "emptyTokenIdActivity\<lparr>ERC721TokenID := tok\<rparr>"
  have k: "normalizeTxHash (Hash ?a) = sampleKey"
    by (rule sample_front_valid; simp add: emptyTokenIdActivity_def)
  have b: "validateBlockNumber (BlockNum ?a) = None"
    "ParseUint (TrimPrefix (BlockNum ?a) ''0x'') 16 = Some 16"
    by (rule sample_block; simp add: emptyTokenIdActivity_def)+
  have c: "ToLower (Category ?a) = ''erc721''"
    by (simp add: emptyTokenIdActivity_def ToLower_def toLowerChar_def)
  have u: "case RawContract ?a of None \<Rightarrow> True | Some rc \<Rightarrow> Address rc = []"
    by (simp add: emptyTokenIdActivity_def)
  have f: "FromAddress ?a = ''0x1111111111111111111111111111111111111111''"
    "ToAddress ?a = ''0x2222222222222222222222222222222222222222''"
    by (simp_all add: emptyTokenIdActivity_def sampleActivity_def)
  have i: "\<not> isInternalTx ?a"
    by (simp add: isInternalTx_def emptyTokenIdActivity_def sampleActivity_def ToLower_def
        toLowerChar_def)
  have r: "resolveCurrency (sampleProcessor h) (\<lambda>s. s) ?a
             \<lparr>RawValue = [], Address = [], Decimals = None\<rparr> = ''ETH''"
    by (simp add: resolveCurrency_def getTokenSymbol_def sampleProcessor_def
        emptyTokenIdActivity_def sampleActivity_def)
  have rc: "RawContract ?a = Some \<lparr>RawValue = [], Address = [], Decimals = None\<rparr>"
    "ERC721TokenID ?a = tok" "chainID (sampleProcessor h) = ''eth-mainnet''"
    by (simp_all add: emptyTokenIdActivity_def sampleProcessor_def)
  show ?thesis
    using i r unfolding extractActivity_def classify_erc721[OF c u] b k c f rc
    by (cases tok) simp_all
qed

text \<open>
  An \<open>erc721\<close> activity whose token-id field is present and is the empty string is not
  skipped: the handler receives it with amount 1 and the cache is marked.
\<close>

lemma erc721_empty_token_id_delivered:
  "ToLower (Category emptyTokenIdActivity) = ''erc721'' \<and>
   ERC721TokenID emptyTokenIdActivity = Some [] \<and>
   handler_calls (ProcessActivity (sampleProcessor (\<lambda>ev. None)) (\<lambda>s. s) emptyCache 5 6
                    emptyTokenIdActivity) =
     [\<lparr>PTxHash = sampleKey,
       PFromAddress = ''0x1111111111111111111111111111111111111111'',
       PToAddress = ''0x2222222222222222222222222222222222222222'',
       PValue = 1, PCurrency = ''ETH'', PCategory = ''erc721'',
       PBlockNumber = 16, PNetwork = ''ERC-721'', PIsInternal = False\<rparr>] \<and>
   marksOf (cache_calls (ProcessActivity (sampleProcessor (\<lambda>ev. None)) (\<lambda>s. s) emptyCache 5 6
                    emptyTokenIdActivity)) = [(sampleKey, ttl24h)]"
proof -
  let ?a = "emptyTokenIdActivity"
  let ?p = "sampleProcessor (\<lambda>ev. None)"
  have v: "validateEthereumAddress (ToAddress ?a) = None"
    "validateEthereumAddress (FromAddress ?a) = None"
    "validateTransactionHash (normalizeTxHash (Hash ?a)) = None"
    and k: "normalizeTxHash (Hash ?a) = sampleKey"
    by (rule sample_front_valid; simp add: emptyTokenIdActivity_def)+
  have u: "uniqueID ?a = sampleKey"
    using k by (simp add: uniqueID_def emptyTokenIdActivity_def sampleActivity_def)
  have c: "ToLower (Category ?a) = ''erc721''"
    by (simp add: emptyTokenIdActivity_def ToLower_def toLowerChar_def)
  have t: "ERC721TokenID ?a = Some []" by (simp add: emptyTokenIdActivity_def)
  have e: "extractActivity ?p (\<lambda>s. s) ?a =
          Inr (Some \<lparr>PTxHash = sampleKey,
                      PFromAddress = ''0x1111111111111111111111111111111111111111'',
                      PToAddress = ''0x2222222222222222222222222222222222222222'',
                      PValue = 1, PCurrency = ''ETH'', PCategory = ''erc721'',
                      PBlockNumber = 16, PNetwork = ''ERC-721'', PIsInternal = False\<rparr>)"
  proof -
    have "emptyTokenIdActivity\<lparr>ERC721TokenID := Some []\<rparr> = emptyTokenIdActivity"
      by (simp add: emptyTokenIdActivity_def)
    then show ?thesis using emptyTokenId_extract[of "\<lambda>ev. None" "Some []"] by simp
  qed
  show ?thesis
    using c t
    by (simp add: ProcessActivity_miss[OF v sample_miss] e u Let_def deliver_def sample_fields)
qed

text \<open>
  An \<open>erc721\<close> activity whose raw contract has a non-empty address never reaches the
  \<open>erc721\<close> branch: the test of the token branch on the address comes first in the \<open>if\<close>
  chain, so the amount is the raw value, the network is an \<open>ERC-20\<close> one, and the token
  id is not looked at.
\<close>

lemma classify_erc721_shadowed:
  assumes "ToLower (Category a) = ''erc721''"
    and "RawContract a = Some rc" "Address rc \<noteq> []" "RawValue rc \<noteq> []"
  shows "classifyActivity p H a =
     Classified
       (case parseSigned (TrimPrefix (RawValue rc) ''0x'') 16 of None \<Rightarrow> 0 | Some v \<Rightarrow> v)
       (resolveCurrency p H a rc)
       (if isInternalTx a
        then (if chainID p = ''eth-testnet'' then ''ERC-20-INTERNAL-TESTNET'' else ''ERC-20-INTERNAL'')
        else (if chainID p = ''eth-testnet'' then ''ERC-20-TESTNET'' else ''ERC-20''))"
  using assms by (simp add: classifyActivity_def Let_def)

lemma erc721Contract_extract:
  "extractActivity (sampleProcessor h) (\<lambda>s. s) erc721ContractActivity =
     Inr (Some \<lparr>PTxHash = sampleKey,
                 PFromAddress = ''0x1111111111111111111111111111111111111111'',
                 PToAddress = ''0x2222222222222222222222222222222222222222'',
                 PValue = 2, PCurrency = ''NFT'', PCategory = ''erc721'',
                 PBlockNumber = 16, PNetwork = ''ERC-20'', PIsInternal = False\<rparr>)"
proof -
  let ?a = "erc721ContractActivity"
  let ?rc = "\<lparr>RawValue = ''0x02'', Address = ''0x3333333333333333333333333333333333333333'',
              Decimals = None\<rparr>"
  have k: "normalizeTxHash (Hash ?a) = sampleKey"
    by (rule sample_front_valid; simp add: erc721ContractActivity_def)
  have b: "validateBlockNumber (BlockNum ?a) = None"
    "ParseUint (TrimPrefix (BlockNum ?a) ''0x'') 16 = Some 16"
    by (rule sample_block; simp add: erc721ContractActivity_def)+
  have c: "ToLower (Category ?a) = ''erc721''"
    by (simp add: erc721ContractActivity_def ToLower_def toLowerChar_def)
  have rc: "RawContract ?a = Some ?rc" by (simp add: erc721ContractActivity_def)
  have f: "FromAddress ?a = ''0x1111111111111111111111111111111111111111''"
    "ToAddress ?a = ''0x2222222222222222222222222222222222222222''"
    by (simp_all add: erc721ContractActivity_def sampleActivity_def)
  have i: "\<not> isInternalTx ?a"
    by (simp add: isInternalTx_def erc721ContractActivity_def sampleActivity_def ToLower_def
        toLowerChar_def)
  have r: "resolveCurrency (sampleProcessor h) (\<lambda>s. s) ?a ?rc = ''NFT''"
    by (simp add: resolveCurrency_def getTokenSymbol_def sampleProcessor_def
        erc721ContractActivity_def sampleActivity_def)
  have v: "parseSigned (TrimPrefix (RawValue ?rc) ''0x'') 16 = Some 2"
    by (simp add: TrimPrefix_def HasPrefix_def parseSigned_def digitVal_def)
  have m: "chainID (sampleProcessor h) = ''eth-mainnet''" by (simp add: sampleProcessor_def)
  have cl: "classifyActivity (sampleProcessor h) (\<lambda>s. s) ?a = Classified 2 ''NFT'' ''ERC-20''"
    using classify_erc721_shadowed[OF c rc, of "sampleProcessor h" "\<lambda>s. s"] i r v m by simp
  show ?thesis
    unfolding extractActivity_def b cl k c f using i by simp
qed

text \<open>
  C9. ERC-721 handling: the amount of every \<open>erc721\<close> activity is to be 1, and an
  activity without a token id is to be skipped, with no handler call and no cache mark.
  The code does not do so for an \<open>erc721\<close> activity that carries a contract address. The
  activity with the contract address \<open>0x3333...\<close>, the raw value \<open>0x02\<close> and no token-id
  field is taken by the token branch of \<open>ProcessActivity\<close>, which precedes the \<open>erc721\<close>
  branch: on an empty cache the handler receives it with amount 2 and network \<open>ERC-20\<close>,
  and its dedup key is marked for 24 hours.
\<close>

theorem erc721_shadowed_by_contract_address:
  "ToLower (Category erc721ContractActivity) = ''erc721'' \<and>
   ERC721TokenID erc721ContractActivity = None \<and>
   handler_calls (ProcessActivity (sampleProcessor (\<lambda>ev. None)) (\<lambda>s. s) emptyCache 5 6
                    erc721ContractActivity) =
     [\<lparr>PTxHash = sampleKey,
       PFromAddress = ''0x1111111111111111111111111111111111111111'',
       PToAddress = ''0x2222222222222222222222222222222222222222'',
       PValue = 2, PCurrency = ''NFT'', PCategory = ''erc721'',
       PBlockNumber = 16, PNetwork = ''ERC-20'', PIsInternal = False\<rparr>] \<and>
   marksOf (cache_calls (ProcessActivity (sampleProcessor (\<lambda>ev. None)) (\<lambda>s. s) emptyCache 5 6
                    erc721ContractActivity)) = [(sampleKey, ttl24h)]"
proof -
  let ?a = "erc721ContractActivity"
  let ?p = "sampleProcessor (\<lambda>ev. None)"
  have v: "validateEthereumAddress (ToAddress ?a) = None"
    "validateEthereumAddress (FromAddress ?a) = None"
    "validateTransactionHash (normalizeTxHash (Hash ?a)) = None"
    and k: "normalizeTxHash (Hash ?a) = sampleKey"
    by (rule sample_front_valid; simp add: erc721ContractActivity_def)+
  have u: "uniqueID ?a = sampleKey"
    using k by (simp add: uniqueID_def erc721ContractActivity_def sampleActivity_def)
  have c: "ToLower (Category ?a) = ''erc721''"
    by (simp add: erc721ContractActivity_def ToLower_def toLowerChar_def)
  have t: "ERC721TokenID ?a = None" by (simp add: erc721ContractActivity_def)
  show ?thesis
    using c t
    by (simp add: ProcessActivity_miss[OF v sample_miss] erc721Contract_extract u Let_def
        deliver_def sample_fields)
qed

lemma resolveCurrency_cache_irrelevant:
  "resolveCurrency (p\<lparr>cache := x\<rparr>) H a rc = resolveCurrency p H a rc"
  by (simp add: resolveCurrency_def getTokenSymbol_def)

lemma chainID_cache_irrelevant: "chainID (p\<lparr>cache := x\<rparr>) = chainID p"
  by simp

lemma classify_cache_irrelevant:
  "classifyActivity (p\<lparr>cache := x\<rparr>) H a = classifyActivity p H a"
  unfolding classifyActivity_def resolveCurrency_cache_irrelevant chainID_cache_irrelevant
  by (rule refl)

lemma extract_cache_irrelevant:
  "extractActivity (p\<lparr>cache := x\<rparr>) H a = extractActivity p H a"
  unfolding extractActivity_def classify_cache_irrelevant by (rule refl)

lemma map_of_evict_None:
  "map_of (entries c) k = None \<Longrightarrow> map_of (entries (evict env c)) k = None"
  by (auto simp: evict_def evictWithoutLRU_def delete_conv' split: list.splits option.splits)

lemma map_of_MarkProcessed_other:
  "k' \<noteq> k \<Longrightarrow> map_of (entries c) k' = None \<Longrightarrow>
   map_of (entries (snd (MarkProcessed env c now k ttl))) k' = None"
  by (simp add: MarkProcessed_def Let_def update_conv' map_of_evict_None)

lemma toLowerChar_idem: "toLowerChar (toLowerChar c) = toLowerChar c"
  by (simp add: toLowerChar_def Let_def)

lemma ToLower_idem: "ToLower (ToLower s) = ToLower s"
  by (simp add: ToLower_def toLowerChar_idem)

lemma normalizeTxHash_shape:
  assumes "validateTransactionHash (normalizeTxHash h) = None"
  shows "\<exists>x. normalizeTxHash h = ''0x'' @ x \<and> length x = 64 \<and> (\<forall>c \<in> set x. isLowerHex c) \<and>
             ToLower (normalizeTxHash h) = normalizeTxHash h"
proof -
  let ?t = "ToLower (TrimPrefix h ''0x'')"
  have l0x: "ToLower ''0x'' = ''0x''" by (simp add: ToLower_def toLowerChar_def)
  have pre: "HasPrefix (normalizeTxHash h) ''0x''"
    by (auto simp: normalizeTxHash_def Let_def HasPrefix_def)
  have cons: "\<And>c u. ToLower (c # u) = toLowerChar c # ToLower u" by (simp add: ToLower_def)
  have c0: "toLowerChar CHR ''0'' = CHR ''0''" "toLowerChar CHR ''x'' = CHR ''x''"
    by (simp_all add: toLowerChar_def)
  have low: "ToLower (normalizeTxHash h) = normalizeTxHash h"
    by (simp add: normalizeTxHash_def Let_def ToLower_idem cons c0)
  from pre obtain x where x: "normalizeTxHash h = ''0x'' @ x"
    unfolding HasPrefix_def by (metis append_take_drop_id)
  have tp: "TrimPrefix (ToLower (normalizeTxHash h)) ''0x'' = x"
    unfolding low using x by (simp add: TrimPrefix_def HasPrefix_def)
  from assms have "length x = 64 \<and> find (\<lambda>c. \<not> isLowerHex c) x = None"
    unfolding validateTransactionHash_def tp Let_def
    by (auto split: if_splits option.splits)
  then show ?thesis using x low by (auto simp: find_None_iff)
qed

lemma consultCache_memory_absent:
  "map_of (entries c) k = None \<Longrightarrow>
   consultCache (Some (memoryCache env)) c now k = (False, c, [Lookup k])"
  by (simp add: consultCache_memory IsProcessed_def)

lemma deliver_memory_state_absent:
  assumes "k' \<noteq> k" "map_of (entries c) k' = None"
  shows "map_of (entries (cache_state (deliver (Some (memoryCache env)) h c now k ev))) k' = None"
proof (cases "case h of None \<Rightarrow> None | Some f \<Rightarrow> f ev")
  case None
  then show ?thesis using assms
    by (simp add: deliver_def memoryCache_def map_of_MarkProcessed_other)
next
  case (Some err)
  then show ?thesis using assms by (simp add: deliver_def)
qed

text \<open>
  C7. Sub-event dedup independence: two activities with the same hash and the trace
  addresses \<open>0\<close> and \<open>1\<close> have the two distinct dedup keys \<open>hash_0\<close> and \<open>hash_1\<close> over the
  normalized hash, so on a live in-process cache that holds neither key, when both
  activities pass validation and normalize to an event, the handler is invoked for the
  first and, on the cache the first run left, for the second. An activity without a
  trace address (absent or empty) has the normalized hash as its key, which for a valid
  hash is \<open>0x\<close> followed by 64 lower-case hex characters.
\<close>

theorem sub_event_independence:
  assumes "Hash a0 = Hash a1"
    and "TypeTraceAddress a0 = Some ''0''" and "TypeTraceAddress a1 = Some ''1''"
    and "validateEthereumAddress (ToAddress a0) = None"
    and "validateEthereumAddress (FromAddress a0) = None"
    and "validateEthereumAddress (ToAddress a1) = None"
    and "validateEthereumAddress (FromAddress a1) = None"
    and "validateTransactionHash (normalizeTxHash (Hash a0)) = None"
    and "extractActivity p H a0 = Inr (Some pa0)"
    and "extractActivity p H a1 = Inr (Some pa1)"
    and "cache p = Some (memoryCache env)" and "handler p = Some h"
    and "map_of (entries c) (uniqueID a0) = None"
    and "map_of (entries c) (uniqueID a1) = None"
  shows "uniqueID a0 = normalizeTxHash (Hash a0) @ ''_0'' \<and>
         uniqueID a1 = normalizeTxHash (Hash a0) @ ''_1'' \<and>
         uniqueID a0 \<noteq> uniqueID a1 \<and>
         handler_calls (ProcessActivity p H c t1 t2 a0) = [pa0] \<and>
         handler_calls (ProcessActivity p H (cache_state (ProcessActivity p H c t1 t2 a0)) t3 t4 a1)
           = [pa1] \<and>
         (\<forall>a. (TypeTraceAddress a = None \<or> TypeTraceAddress a = Some []) \<and>
              validateTransactionHash (normalizeTxHash (Hash a)) = None \<longrightarrow>
              uniqueID a = normalizeTxHash (Hash a) \<and>
              ToLower (uniqueID a) = uniqueID a \<and>
              (\<exists>x. uniqueID a = ''0x'' @ x \<and> length x = 64 \<and> (\<forall>ch \<in> set x. isLowerHex ch)))"
proof -
  have k0: "uniqueID a0 = normalizeTxHash (Hash a0) @ ''_0''"
    and k1: "uniqueID a1 = normalizeTxHash (Hash a0) @ ''_1''"
    using assms(1-3) by (simp_all add: uniqueID_def)
  then have ne: "uniqueID a0 \<noteq> uniqueID a1" by simp
  have v0: "validateEthereumAddress (ToAddress a0) = None"
    "validateEthereumAddress (FromAddress a0) = None"
    "validateTransactionHash (normalizeTxHash (Hash a0)) = None"
    and v1: "validateEthereumAddress (ToAddress a1) = None"
    "validateEthereumAddress (FromAddress a1) = None"
    "validateTransactionHash (normalizeTxHash (Hash a1)) = None"
    using assms(1,4-8) by simp_all
  have c0: "consultCache (cache p) c t1 (uniqueID a0) = (False, c, [Lookup (uniqueID a0)])"
    using assms(11,13) by (simp add: consultCache_memory_absent)
  have r0: "ProcessActivity p H c t1 t2 a0 =
      (deliver (cache p) (handler p) c t2 (uniqueID a0) pa0)
        \<lparr>cache_calls := [Lookup (uniqueID a0)] @
           cache_calls (deliver (cache p) (handler p) c t2 (uniqueID a0) pa0)\<rparr>"
    by (simp add: ProcessActivity_miss[OF v0 c0] assms(9) Let_def)
  have h0: "handler_calls (ProcessActivity p H c t1 t2 a0) = [pa0]"
    by (simp add: r0 deliver_handler_calls assms(12))
  let ?c' = "cache_state (ProcessActivity p H c t1 t2 a0)"
  have "map_of (entries ?c') (uniqueID a1) = None"
    using deliver_memory_state_absent[of "uniqueID a1" "uniqueID a0" c env "handler p" t2 pa0]
      ne assms(11,14) by (simp add: r0)
  then have c1: "consultCache (cache p) ?c' t3 (uniqueID a1) = (False, ?c', [Lookup (uniqueID a1)])"
    using assms(11) by (simp add: consultCache_memory_absent)
  have h1: "handler_calls (ProcessActivity p H ?c' t3 t4 a1) = [pa1]"
    by (simp add: ProcessActivity_miss[OF v1 c1] assms(10) Let_def deliver_handler_calls assms(12))
  have bare: "uniqueID a = normalizeTxHash (Hash a) \<and>
              ToLower (uniqueID a) = uniqueID a \<and>
              (\<exists>x. uniqueID a = ''0x'' @ x \<and> length x = 64 \<and> (\<forall>ch \<in> set x. isLowerHex ch))"
    if "(TypeTraceAddress a = None \<or> TypeTraceAddress a = Some []) \<and>
              validateTransactionHash (normalizeTxHash (Hash a)) = None" for a
  proof -
    from that have u: "uniqueID a = normalizeTxHash (Hash a)" by (auto simp: uniqueID_def)
    from that normalizeTxHash_shape[of "Hash a"] show ?thesis unfolding u by auto
  qed
  have last: "\<forall>a. (TypeTraceAddress a = None \<or> TypeTraceAddress a = Some []) \<and>
              validateTransactionHash (normalizeTxHash (Hash a)) = None \<longrightarrow>
              uniqueID a = normalizeTxHash (Hash a) \<and>
              ToLower (uniqueID a) = uniqueID a \<and>
              (\<exists>x. uniqueID a = ''0x'' @ x \<and> length x = 64 \<and> (\<forall>ch \<in> set x. isLowerHex ch))"
  proof (intro allI impI)
    fix a :: AlchemyActivity
    assume "(TypeTraceAddress a = None \<or> TypeTraceAddress a = Some []) \<and>
              validateTransactionHash (normalizeTxHash (Hash a)) = None"
    from bare[OF this]
    show "uniqueID a = normalizeTxHash (Hash a) \<and>
              ToLower (uniqueID a) = uniqueID a \<and>
              (\<exists>x. uniqueID a = ''0x'' @ x \<and> length x = 64 \<and> (\<forall>ch \<in> set x. isLowerHex ch))" .
  qed
  show ?thesis
    by (rule conjI[OF k0], rule conjI[OF k1], rule conjI[OF ne], rule conjI[OF h0],
        rule conjI[OF h1], rule last)
qed

lemma sample_extract:
  "extractActivity (sampleProcessor h) H (sampleActivity\<lparr>TypeTraceAddress := tr\<rparr>) =
     Inr (Some (samplePA (case tr of None \<Rightarrow> False | Some t \<Rightarrow> t \<noteq> [])))"
proof -
  let ?a = "sampleActivity\<lparr>TypeTraceAddress := tr\<rparr>"
  have k: "normalizeTxHash (Hash ?a) = sampleKey"
    by (rule sample_front_valid; simp)
  have b: "validateBlockNumber (BlockNum ?a) = None"
    "ParseUint (TrimPrefix (BlockNum ?a) ''0x'') 16 = Some 16"
    by (rule sample_block; simp)+
  have c: "ToLower (Category ?a) = ''external''"
    by (simp add: sampleActivity_def ToLower_def toLowerChar_def)
  have amt: "scaledAmount 53 (Finite 3 (-1)) (1000000000000000000, 0) = Inr (Some 1500000000000000000)"
    by (simp add: scaledAmount_def bigFloatMul_def roundToPrec_def bigFloatInt_def bitLen.simps Let_def)
  have cl: "classifyActivity (sampleProcessor h) H ?a = Classified 1500000000000000000 ''ETH'' ''MAINNET''"
    unfolding classifyActivity_def c Let_def
    by (simp add: amt sampleActivity_def sampleProcessor_def)
  have i: "isInternalTx ?a = (case tr of None \<Rightarrow> False | Some t \<Rightarrow> t \<noteq> [])"
    by (simp add: isInternalTx_def sampleActivity_def ToLower_def toLowerChar_def)
  have f: "FromAddress ?a = ''0x1111111111111111111111111111111111111111''"
    "ToAddress ?a = ''0x2222222222222222222222222222222222222222''"
    by (simp_all add: sampleActivity_def)
  show ?thesis unfolding extractActivity_def b cl k c f i by (simp add: samplePA_def)
qed

text \<open>
  C7 at a concrete input: the sample activity with trace address \<open>0\<close>, then with \<open>1\<close>.
\<close>

theorem sub_event_independence_witness:
  "Hash (sampleActivity\<lparr>TypeTraceAddress := Some ''0''\<rparr>) =
     Hash (sampleActivity\<lparr>TypeTraceAddress := Some ''1''\<rparr>) \<and>
   uniqueID (sampleActivity\<lparr>TypeTraceAddress := Some ''0''\<rparr>) = sampleKey @ ''_0'' \<and>
   uniqueID (sampleActivity\<lparr>TypeTraceAddress := Some ''1''\<rparr>) = sampleKey @ ''_1'' \<and>
   handler_calls (ProcessActivity (sampleProcessor (\<lambda>ev. None)) (\<lambda>s. s) emptyCache 5 6
                    (sampleActivity\<lparr>TypeTraceAddress := Some ''0''\<rparr>)) = [samplePA True] \<and>
   handler_calls (ProcessActivity (sampleProcessor (\<lambda>ev. None)) (\<lambda>s. s)
                    (cache_state (ProcessActivity (sampleProcessor (\<lambda>ev. None)) (\<lambda>s. s) emptyCache 5 6
                                    (sampleActivity\<lparr>TypeTraceAddress := Some ''0''\<rparr>)))
                    7 8 (sampleActivity\<lparr>TypeTraceAddress := Some ''1''\<rparr>)) = [samplePA True]"
proof -
  let ?a0 = "sampleActivity\<lparr>TypeTraceAddress := Some ''0''\<rparr>"
  let ?a1 = "sampleActivity\<lparr>TypeTraceAddress := Some ''1''\<rparr>"
  let ?p = "sampleProcessor (\<lambda>ev. None)"
  have h1: "Hash ?a0 = Hash ?a1" by simp
  have h2: "TypeTraceAddress ?a0 = Some ''0''" and h3: "TypeTraceAddress ?a1 = Some ''1''"
    by simp_all
  have v0: "validateEthereumAddress (ToAddress ?a0) = None"
    "validateEthereumAddress (FromAddress ?a0) = None"
    "validateTransactionHash (normalizeTxHash (Hash ?a0)) = None"
    and k0: "normalizeTxHash (Hash ?a0) = sampleKey"
    by (rule sample_front_valid; simp)+
  have v1: "validateEthereumAddress (ToAddress ?a1) = None"
    "validateEthereumAddress (FromAddress ?a1) = None"
    by (rule sample_front_valid; simp)+
  have e0: "extractActivity ?p (\<lambda>s. s) ?a0 = Inr (Some (samplePA True))"
    and e1: "extractActivity ?p (\<lambda>s. s) ?a1 = Inr (Some (samplePA True))"
    by (simp_all add: sample_extract)
  have m0: "map_of (entries emptyCache) (uniqueID ?a0) = None"
    and m1: "map_of (entries emptyCache) (uniqueID ?a1) = None"
    by (simp_all add: emptyCache_def)
  from sub_event_independence[OF h1 h2 h3 v0(1,2) v1 v0(3) e0 e1 sample_fields(2) sample_fields(1) m0 m1,
      of 5 6 7 8] h1 k0
  show ?thesis by simp
qed

lemma ProcessActivity_handler_calls_le:
  "length (handler_calls (ProcessActivity p H st t1 t2 a)) \<le> 1"
  using ProcessActivity_cases[of p H st t1 t2 a] by (auto simp: deliver_handler_calls)

text \<open>
  C1 (as amended). At-most-once delivery per TTL window: with a live in-process cache and
  a handler that returns success, feeding the same activity through \<open>ProcessActivity\<close>
  twice, the second cache consult no later than 24 hours after the first run's mark,
  invokes the handler at most once in total. It invokes it exactly once, in the first run,
  the second run finding the mark and skipping with nil after its lookup, when the
  activity passes address and hash validation, is not reported as processed at the first
  consult, and normalizes to an event.
\<close>

theorem at_most_once_per_ttl_window:
  assumes "cache p = Some (memoryCache env)" and "handler p = Some h"
    and "\<forall>ev. h ev = None" and "t3 \<le> t2 + ttl24h"
  shows "length (handler_calls (ProcessActivity p H c t1 t2 a)) +
         length (handler_calls (ProcessActivity p H
                   (cache_state (ProcessActivity p H c t1 t2 a)) t3 t4 a)) \<le> 1 \<and>
         (validateEthereumAddress (ToAddress a) = None \<and>
          validateEthereumAddress (FromAddress a) = None \<and>
          validateTransactionHash (normalizeTxHash (Hash a)) = None \<and>
          \<not> fst (consultCache (cache p) c t1 (uniqueID a)) \<and>
          extractActivity p H a = Inr (Some pa) \<longrightarrow>
            handler_calls (ProcessActivity p H c t1 t2 a) = [pa] \<and>
            handler_calls (ProcessActivity p H
                   (cache_state (ProcessActivity p H c t1 t2 a)) t3 t4 a) = [] \<and>
            result (ProcessActivity p H
                   (cache_state (ProcessActivity p H c t1 t2 a)) t3 t4 a) = Inr () \<and>
            cache_calls (ProcessActivity p H
                   (cache_state (ProcessActivity p H c t1 t2 a)) t3 t4 a) = [Lookup (uniqueID a)])"
proof -
  let ?out1 = "ProcessActivity p H c t1 t2 a"
  let ?out2 = "ProcessActivity p H (cache_state ?out1) t3 t4 a"
  have delivered: "handler_calls ?out1 = [pa'] \<and> handler_calls ?out2 = [] \<and>
       result ?out2 = Inr () \<and> cache_calls ?out2 = [Lookup (uniqueID a)]"
    if v: "validateEthereumAddress (ToAddress a) = None"
      "validateEthereumAddress (FromAddress a) = None"
      "validateTransactionHash (normalizeTxHash (Hash a)) = None"
      and c1: "consultCache (cache p) c t1 (uniqueID a) = (False, st1, lookups)"
      and e: "extractActivity p H a = Inr (Some pa')" for pa' st1 lookups
  proof -
    have d: "deliver (cache p) (handler p) st1 t2 (uniqueID a) pa' =
        \<lparr>result = Inr (), cache_state = snd (MarkProcessed env st1 t2 (uniqueID a) ttl24h),
         handler_calls = [pa'], cache_calls = [Mark (uniqueID a) ttl24h]\<rparr>"
      using assms(1-3) by (simp add: deliver_succeeded[of _ h] memoryCache_def)
    have o1: "handler_calls ?out1 = [pa']"
      "cache_state ?out1 = snd (MarkProcessed env st1 t2 (uniqueID a) ttl24h)"
      by (simp_all add: ProcessActivity_miss[OF v c1] e Let_def d)
    have "fst (IsProcessed (cache_state ?out1) t3 (uniqueID a)) = (True, None)"
      unfolding o1 by (rule IsProcessed_after_Mark[OF assms(4)])
    then have c2: "consultCache (cache p) (cache_state ?out1) t3 (uniqueID a) =
        (True, snd (IsProcessed (cache_state ?out1) t3 (uniqueID a)), [Lookup (uniqueID a)])"
      using assms(1) by (simp add: consultCache_memory)
    show ?thesis using o1(1) by (simp add: ProcessActivity_hit[OF v c2])
  qed
  have total: "length (handler_calls ?out1) + length (handler_calls ?out2) \<le> 1"
  proof (cases "handler_calls ?out1 = []")
    case True
    then show ?thesis using ProcessActivity_handler_calls_le[of p H "cache_state ?out1" t3 t4 a]
      by simp
  next
    case False
    with ProcessActivity_cases[of p H c t1 t2 a] obtain pa' st1 lookups where
      "validateEthereumAddress (ToAddress a) = None"
      "validateEthereumAddress (FromAddress a) = None"
      "validateTransactionHash (normalizeTxHash (Hash a)) = None"
      "consultCache (cache p) c t1 (uniqueID a) = (False, st1, lookups)"
      "extractActivity p H a = Inr (Some pa')" by auto
    from delivered[OF this] show ?thesis by simp
  qed
  have exact: "handler_calls ?out1 = [pa] \<and> handler_calls ?out2 = [] \<and>
       result ?out2 = Inr () \<and> cache_calls ?out2 = [Lookup (uniqueID a)]"
    if pre: "validateEthereumAddress (ToAddress a) = None \<and>
          validateEthereumAddress (FromAddress a) = None \<and>
          validateTransactionHash (normalizeTxHash (Hash a)) = None \<and>
          \<not> fst (consultCache (cache p) c t1 (uniqueID a)) \<and>
          extractActivity p H a = Inr (Some pa)"
  proof -
    obtain st1 lookups where "consultCache (cache p) c t1 (uniqueID a) = (False, st1, lookups)"
      using pre by (cases "consultCache (cache p) c t1 (uniqueID a)") auto
    with pre show ?thesis using delivered[of st1 lookups pa] by simp
  qed
  show ?thesis by (rule conjI[OF total], rule impI, rule exact)
qed

lemma unsupported_extract:
  "extractActivity (sampleProcessor h) H (sampleActivity\<lparr>Category := ''airdrop''\<rparr>) = Inr None"
proof -
  let ?a = "sampleActivity\<lparr>Category := ''airdrop''\<rparr>"
  have b: "validateBlockNumber (BlockNum ?a) = None"
    "ParseUint (TrimPrefix (BlockNum ?a) ''0x'') 16 = Some 16"
    by (rule sample_block; simp)+
  have c: "ToLower (Category ?a) = ''airdrop''"
    by (simp add: ToLower_def toLowerChar_def)
  have r: "RawContract ?a = None" by (simp add: sampleActivity_def)
  have cl: "classifyActivity (sampleProcessor h) H ?a = Skipped"
    unfolding classifyActivity_def c r Let_def by simp
  show ?thesis unfolding extractActivity_def b cl by simp
qed

text \<open>
  C1 as stated fails in "exactly one": an activity with valid addresses and hash, no trace
  address and the unsupported category \<open>airdrop\<close> is dropped by both runs, and the handler
  is invoked zero times.
\<close>

theorem at_most_once_per_ttl_window_counterexample:
  "validateEthereumAddress (ToAddress (sampleActivity\<lparr>Category := ''airdrop''\<rparr>)) = None \<and>
   validateEthereumAddress (FromAddress (sampleActivity\<lparr>Category := ''airdrop''\<rparr>)) = None \<and>
   validateTransactionHash (normalizeTxHash (Hash (sampleActivity\<lparr>Category := ''airdrop''\<rparr>))) = None \<and>
   TypeTraceAddress (sampleActivity\<lparr>Category := ''airdrop''\<rparr>) = None \<and>
   handler_calls (ProcessActivity (sampleProcessor (\<lambda>ev. None)) (\<lambda>s. s) emptyCache 5 6
                    (sampleActivity\<lparr>Category := ''airdrop''\<rparr>)) @
   handler_calls (ProcessActivity (sampleProcessor (\<lambda>ev. None)) (\<lambda>s. s)
                    (cache_state (ProcessActivity (sampleProcessor (\<lambda>ev. None)) (\<lambda>s. s) emptyCache 5 6
                                    (sampleActivity\<lparr>Category := ''airdrop''\<rparr>)))
                    7 8 (sampleActivity\<lparr>Category := ''airdrop''\<rparr>)) = []"
proof -
  let ?a = "sampleActivity\<lparr>Category := ''airdrop''\<rparr>"
  let ?p = "sampleProcessor (\<lambda>ev. None)"
  have v: "validateEthereumAddress (ToAddress ?a) = None"
    "validateEthereumAddress (FromAddress ?a) = None"
    "validateTransactionHash (normalizeTxHash (Hash ?a)) = None"
    by (rule sample_front_valid; simp)+
  have t: "TypeTraceAddress ?a = None" by (simp add: sampleActivity_def)
  have r1: "ProcessActivity ?p (\<lambda>s. s) emptyCache 5 6 ?a =
      \<lparr>result = Inr (), cache_state = emptyCache, handler_calls = [],
       cache_calls = [Lookup (uniqueID ?a)]\<rparr>"
    by (simp add: ProcessActivity_miss[OF v sample_miss] unsupported_extract)
  have r2: "ProcessActivity ?p (\<lambda>s. s) emptyCache 7 8 ?a =
      \<lparr>result = Inr (), cache_state = emptyCache, handler_calls = [],
       cache_calls = [Lookup (uniqueID ?a)]\<rparr>"
    by (simp add: ProcessActivity_miss[OF v sample_miss] unsupported_extract)
  show ?thesis using v t by (simp add: r1 r2)
qed

text \<open>
  C1 (as amended) at a concrete input: the sample activity on an empty cache reaches the
  handler in the first run and is skipped by the second.
\<close>

theorem at_most_once_per_ttl_window_witness:
  "(7::int) \<le> 6 + ttl24h \<and>
   handler_calls (ProcessActivity (sampleProcessor (\<lambda>ev. None)) (\<lambda>s. s) emptyCache 5 6
                    sampleActivity) = [samplePA False] \<and>
   handler_calls (ProcessActivity (sampleProcessor (\<lambda>ev. None)) (\<lambda>s. s)
                    (cache_state (ProcessActivity (sampleProcessor (\<lambda>ev. None)) (\<lambda>s. s) emptyCache 5 6
                                    sampleActivity))
                    7 8 sampleActivity) = [] \<and>
   result (ProcessActivity (sampleProcessor (\<lambda>ev. None)) (\<lambda>s. s)
                    (cache_state (ProcessActivity (sampleProcessor (\<lambda>ev. None)) (\<lambda>s. s) emptyCache 5 6
                                    sampleActivity))
                    7 8 sampleActivity) = Inr ()"
proof -
  let ?p = "sampleProcessor (\<lambda>ev. None)"
  have w: "(7::int) \<le> 6 + ttl24h" by (simp add: ttl24h_def)
  have s: "\<forall>ev::ProcessedActivity. (\<lambda>ev. None :: string option) ev = None" by simp
  have v: "validateEthereumAddress (ToAddress sampleActivity) = None"
    "validateEthereumAddress (FromAddress sampleActivity) = None"
    "validateTransactionHash (normalizeTxHash (Hash sampleActivity)) = None"
    by (rule sample_front_valid; simp)+
  have m: "\<not> fst (consultCache (cache ?p) emptyCache 5 (uniqueID sampleActivity))"
    by (simp add: sample_miss)
  have e: "extractActivity ?p (\<lambda>s. s) sampleActivity = Inr (Some (samplePA False))"
    using sample_extract[of "\<lambda>ev. None" "\<lambda>s. s" None] by (simp add: sampleActivity_def)
  from at_most_once_per_ttl_window[OF sample_fields(2) sample_fields(1) s w,
      of "\<lambda>s. s" emptyCache 5 sampleActivity 8 "samplePA False"] v m e w
  show ?thesis by simp
qed

section \<open>Native-transfer extraction of the Solana normalizer\<close>

lemma scanDebit_find:
  "scanDebit i pre post js =
     find (\<lambda>j. j \<noteq> i \<and> post ! j < pre ! j \<and> 0 < wrap64 (pre ! j - post ! j)) js"
  by (induction js) auto

lemma nativeLoop_concat:
  "nativeLoop accountKeys pre post is acc =
     acc @ concat (map (\<lambda>i.
        if 0 < wrap64 (post ! i - pre ! i) then
          (case find (\<lambda>j. j \<noteq> i \<and> post ! j < pre ! j \<and> 0 < wrap64 (pre ! j - post ! j))
                  [0..<length accountKeys] of
             Some j \<Rightarrow> [\<lparr>FromUserAccount = accountKeys ! j, ToUserAccount = accountKeys ! i,
                          Amount = wrap64 (post ! i - pre ! i)\<rparr>]
           | None \<Rightarrow> [])
        else []) is)"
  by (induction "is" arbitrary: acc) (auto simp: scanDebit_find Let_def split: option.splits)

lemma extractNativeTransfers_matched:
  "length (PreBalances meta) = length (PostBalances meta) \<Longrightarrow>
   length (PreBalances meta) = length accountKeys \<Longrightarrow>
   extractNativeTransfers accountKeys meta =
     creditedPairing accountKeys (PreBalances meta) (PostBalances meta)"
  by (simp add: extractNativeTransfers_def creditedPairing_def nativeLoop_concat)

lemma wrap64_small: "- (2 ^ 63) \<le> x \<Longrightarrow> x < 2 ^ 63 \<Longrightarrow> wrap64 x = x"
  by (simp add: wrap64_def)

lemma wrap64_diff:
  assumes "0 \<le> x" "x < 2 ^ 63" "0 \<le> y" "y < 2 ^ 63"
  shows "wrap64 (x - y) = x - y"
  using assms by (intro wrap64_small) auto

lemma length_concat_le:
  "(\<And>x. x \<in> set xs \<Longrightarrow> length (f x) \<le> 1) \<Longrightarrow> length (concat (map f xs)) \<le> length xs"
proof (induction xs)
  case Nil
  then show ?case by simp
next
  case (Cons a xs)
  have "length (f a) \<le> 1" using Cons.prems by simp
  moreover have "length (concat (map f xs)) \<le> length xs" using Cons by simp
  ultimately show ?case by simp
qed

lemma length_creditedPairing:
  "length (creditedPairing accountKeys pre post) \<le> length accountKeys"
proof -
  have "length (creditedPairing accountKeys pre post) \<le> length [0..<length accountKeys]"
    unfolding creditedPairing_def
    by (rule length_concat_le) (auto split: option.splits)
  then show ?thesis by simp
qed

lemma creditedPairing_plain:
  assumes "length pre = length accountKeys" "length post = length accountKeys"
    and "\<forall>x \<in> set pre \<union> set post. 0 \<le> x \<and> x < 2 ^ 63"
  shows "creditedPairing accountKeys pre post = plainPairing accountKeys pre post"
proof -
  have w: "wrap64 (post ! i - pre ! i) = post ! i - pre ! i"
    "wrap64 (pre ! i - post ! i) = pre ! i - post ! i" if "i < length accountKeys" for i
  proof -
    from that assms have "pre ! i \<in> set pre" "post ! i \<in> set post" by simp_all
    with assms(3) have "0 \<le> pre ! i" "pre ! i < 2 ^ 63" "0 \<le> post ! i" "post ! i < 2 ^ 63"
      by auto
    then show "wrap64 (post ! i - pre ! i) = post ! i - pre ! i"
      "wrap64 (pre ! i - post ! i) = pre ! i - post ! i"
      by (simp_all add: wrap64_diff)
  qed
  have f: "find (\<lambda>j. j \<noteq> i \<and> post ! j < pre ! j \<and> 0 < wrap64 (pre ! j - post ! j))
             [0..<length accountKeys] =
           find (\<lambda>j. j \<noteq> i \<and> post ! j < pre ! j) [0..<length accountKeys]" for i
    by (rule find_cong) (auto simp: w)
  show ?thesis
    unfolding creditedPairing_def plainPairing_def f
    by (rule arg_cong[where f = concat], rule map_cong) (auto simp: w split: option.splits)
qed

lemma sample_native:
  "extractNativeTransfers [''A'', ''B'', ''C''] sampleMeta =
     [\<lparr>FromUserAccount = ''B'', ToUserAccount = ''A'', Amount = 5\<rparr>]"
  by (simp add: extractNativeTransfers_def sampleMeta_def upt_rec wrap64_def Let_def)

text \<open>
  C6 (as amended). Solana native-transfer pairing: when the pre-balance, post-balance and
  account-key arrays have equal length, \<open>extractNativeTransfers\<close> is \<open>creditedPairing\<close>:
  for each index \<open>i\<close> whose balance change is positive, at most one transfer, from the
  first index \<open>j \<noteq> i\<close> whose pre-balance exceeds its post-balance by a positive amount,
  for the credited amount \<open>post ! i - pre ! i\<close>, whatever the debit of \<open>j\<close> is; so there are
  at most as many transfers as accounts. For balances that are non-negative 64-bit
  integers the differences do not overflow and the result is \<open>plainPairing\<close>. When the
  lengths mismatch, no transfer is emitted.
\<close>

theorem native_transfer_pairing:
  "(length (PreBalances meta) = length (PostBalances meta) \<and>
    length (PreBalances meta) = length accountKeys \<longrightarrow>
      extractNativeTransfers accountKeys meta =
        creditedPairing accountKeys (PreBalances meta) (PostBalances meta) \<and>
      length (extractNativeTransfers accountKeys meta) \<le> length accountKeys \<and>
      ((\<forall>x \<in> set (PreBalances meta) \<union> set (PostBalances meta). 0 \<le> x \<and> x < 2 ^ 63) \<longrightarrow>
         extractNativeTransfers accountKeys meta =
           plainPairing accountKeys (PreBalances meta) (PostBalances meta))) \<and>
   (\<not> (length (PreBalances meta) = length (PostBalances meta) \<and>
       length (PreBalances meta) = length accountKeys) \<longrightarrow>
      extractNativeTransfers accountKeys meta = [])"
proof (intro conjI impI)
  assume l: "length (PreBalances meta) = length (PostBalances meta) \<and>
    length (PreBalances meta) = length accountKeys"
  then show m: "extractNativeTransfers accountKeys meta =
        creditedPairing accountKeys (PreBalances meta) (PostBalances meta)"
    by (simp add: extractNativeTransfers_matched)
  show "length (extractNativeTransfers accountKeys meta) \<le> length accountKeys"
    unfolding m by (rule length_creditedPairing)
  assume "\<forall>x \<in> set (PreBalances meta) \<union> set (PostBalances meta). 0 \<le> x \<and> x < 2 ^ 63"
  then show "extractNativeTransfers accountKeys meta =
           plainPairing accountKeys (PreBalances meta) (PostBalances meta)"
    unfolding m using l by (intro creditedPairing_plain) simp_all
next
  assume "\<not> (length (PreBalances meta) = length (PostBalances meta) \<and>
       length (PreBalances meta) = length accountKeys)"
  then show "extractNativeTransfers accountKeys meta = []"
    by (auto simp: extractNativeTransfers_def)
qed

text \<open>
  C6 as stated fails in the amount: with \<open>A\<close> credited 5 and the first debited account
  \<open>B\<close> debited 3, the code emits a transfer of 5 from \<open>B\<close> to \<open>A\<close>, while the smaller of
  the two deltas, which \<open>claimedPairing\<close> emits, is 3.
\<close>

theorem native_transfer_pairing_counterexample:
  "length (PreBalances sampleMeta) = length (PostBalances sampleMeta) \<and>
   length (PreBalances sampleMeta) = length [''A'', ''B'', ''C''] \<and>
   extractNativeTransfers [''A'', ''B'', ''C''] sampleMeta =
     [\<lparr>FromUserAccount = ''B'', ToUserAccount = ''A'', Amount = 5\<rparr>] \<and>
   claimedPairing [''A'', ''B'', ''C''] (PreBalances sampleMeta) (PostBalances sampleMeta) =
     [\<lparr>FromUserAccount = ''B'', ToUserAccount = ''A'', Amount = 3\<rparr>] \<and>
   extractNativeTransfers [''A'', ''B'', ''C''] sampleMeta \<noteq>
     claimedPairing [''A'', ''B'', ''C''] (PreBalances sampleMeta) (PostBalances sampleMeta)"
proof -
  have c: "claimedPairing [''A'', ''B'', ''C''] (PreBalances sampleMeta) (PostBalances sampleMeta) =
     [\<lparr>FromUserAccount = ''B'', ToUserAccount = ''A'', Amount = 3\<rparr>]"
    by (simp add: claimedPairing_def sampleMeta_def upt_rec)
  show ?thesis unfolding c sample_native by (simp add: sampleMeta_def)
qed

text \<open>
  C6 (as amended) at concrete inputs: the sample balances with three account keys, and
  with two, where the lengths mismatch.
\<close>

theorem native_transfer_pairing_witness:
  "length (PreBalances sampleMeta) = length (PostBalances sampleMeta) \<and>
   length (PreBalances sampleMeta) = length [''A'', ''B'', ''C''] \<and>
   extractNativeTransfers [''A'', ''B'', ''C''] sampleMeta =
     [\<lparr>FromUserAccount = ''B'', ToUserAccount = ''A'', Amount = 5\<rparr>] \<and>
   plainPairing [''A'', ''B'', ''C''] (PreBalances sampleMeta) (PostBalances sampleMeta) =
     [\<lparr>FromUserAccount = ''B'', ToUserAccount = ''A'', Amount = 5\<rparr>] \<and>
   extractNativeTransfers [''A'', ''B''] sampleMeta = []"
proof -
  have l: "length (PreBalances sampleMeta) = length (PostBalances sampleMeta) \<and>
    length (PreBalances sampleMeta) = length [''A'', ''B'', ''C'']"
    by (simp add: sampleMeta_def)
  have n: "\<forall>x \<in> set (PreBalances sampleMeta) \<union> set (PostBalances sampleMeta). 0 \<le> x \<and> x < 2 ^ 63"
    by (simp add: sampleMeta_def)
  have s: "\<not> (length (PreBalances sampleMeta) = length (PostBalances sampleMeta) \<and>
    length (PreBalances sampleMeta) = length [''A'', ''B''])"
    by (simp add: sampleMeta_def)
  have p: "extractNativeTransfers [''A'', ''B'', ''C''] sampleMeta =
      plainPairing [''A'', ''B'', ''C''] (PreBalances sampleMeta) (PostBalances sampleMeta)"
    using native_transfer_pairing[of sampleMeta "[''A'', ''B'', ''C'']"] l n by auto
  have e: "extractNativeTransfers [''A'', ''B''] sampleMeta = []"
    using native_transfer_pairing[of sampleMeta "[''A'', ''B'']"] s by auto
  show ?thesis using l e p[symmetric] by (simp add: sample_native)
qed

section \<open>Handler errors and cache errors in both normalizers\<close>

lemma marksOf_append: "marksOf (xs @ ys) = marksOf xs @ marksOf ys"
  by (induction xs rule: marksOf.induct) simp_all

lemma outcome_props_idle:
  assumes "handler_calls out = []" "marksOf (cache_calls out) = []"
  shows "handlerErrorKept h out st1" "markedOnlyOnSuccess h key out"
    "successDespiteMark h key cached out"
  using assms by (simp_all add: handlerErrorKept_def markedOnlyOnSuccess_def successDespiteMark_def)

lemma outcome_props_deliver:
  assumes "marksOf lookups = []"
    and "out = (deliver ch (Some h) st1 now key ev)
                 \<lparr>cache_calls := lookups @ cache_calls (deliver ch (Some h) st1 now key ev)\<rparr>"
  shows "handlerErrorKept h out st1" "markedOnlyOnSuccess h key out"
    "successDespiteMark h key (ch \<noteq> None) out"
proof -
  show "handlerErrorKept h out st1"
    unfolding handlerErrorKept_def assms(2)
    by (cases "h ev") (auto simp: deliver_failed deliver_succeeded marksOf_append assms(1)
        split: option.splits)
  show "markedOnlyOnSuccess h key out"
    unfolding markedOnlyOnSuccess_def assms(2)
    by (cases "h ev"; cases ch) (auto simp: deliver_failed deliver_succeeded marksOf_append assms(1))
  show "successDespiteMark h key (ch \<noteq> None) out"
    unfolding successDespiteMark_def assms(2)
    by (cases "h ev"; cases ch) (auto simp: deliver_failed deliver_succeeded marksOf_append assms(1))
qed

lemma ProcessTransaction_cases:
  "(handler_calls (ProcessTransaction q D st t1 tu t2 tx slot) = [] \<and>
    marksOf (cache_calls (ProcessTransaction q D st t1 tu t2 tx slot)) = []) \<or>
   (\<exists>ev st1 lookups.
      consultCache (sol_cache q) st t1 (Signature tx) = (False, st1, lookups) \<and>
      marksOf lookups = [] \<and>
      ProcessTransaction q D st t1 tu t2 tx slot =
        (deliver (sol_cache q) (sol_handler q) st1 t2 (Signature tx) ev)
          \<lparr>cache_calls := lookups @
             cache_calls (deliver (sol_cache q) (sol_handler q) st1 t2 (Signature tx) ev)\<rparr>)"
proof -
  obtain hit st1 lookups where
    c: "consultCache (sol_cache q) st t1 (Signature tx) = (hit, st1, lookups)"
    and m: "marksOf lookups = []"
    using consultCache_shape[of "sol_cache q" st t1 "Signature tx"] by blast
  show ?thesis
  proof (cases hit)
    case True
    then show ?thesis using c m by (simp add: ProcessTransaction_def Let_def)
  next
    case False
    then show ?thesis using c m by (auto simp: ProcessTransaction_def Let_def)
  qed
qed

lemma ProcessActivity_outcome_props:
  assumes "handler p = Some h"
  shows "handlerErrorKept h (ProcessActivity p H st t1 t2 a)
           (fst (snd (consultCache (cache p) st t1 (uniqueID a))))"
    and "markedOnlyOnSuccess h (uniqueID a) (ProcessActivity p H st t1 t2 a)"
    and "successDespiteMark h (uniqueID a) (cache p \<noteq> None) (ProcessActivity p H st t1 t2 a)"
proof -
  let ?out = "ProcessActivity p H st t1 t2 a"
  let ?st1 = "fst (snd (consultCache (cache p) st t1 (uniqueID a)))"
  from ProcessActivity_cases[of p H st t1 t2 a]
  have "handlerErrorKept h ?out ?st1 \<and> markedOnlyOnSuccess h (uniqueID a) ?out \<and>
        successDespiteMark h (uniqueID a) (cache p \<noteq> None) ?out"
  proof (elim disjE exE conjE)
    assume "handler_calls ?out = []" "marksOf (cache_calls ?out) = []"
    then show ?thesis by (simp add: outcome_props_idle)
  next
    fix pa st1 lookups
    assume c: "consultCache (cache p) st t1 (uniqueID a) = (False, st1, lookups)"
      and m: "marksOf lookups = []"
      and o: "?out = (deliver (cache p) (handler p) st1 t2 (uniqueID a) pa)
          \<lparr>cache_calls := lookups @ cache_calls (deliver (cache p) (handler p) st1 t2 (uniqueID a) pa)\<rparr>"
    from o have o': "?out = (deliver (cache p) (Some h) st1 t2 (uniqueID a) pa)
          \<lparr>cache_calls := lookups @ cache_calls (deliver (cache p) (Some h) st1 t2 (uniqueID a) pa)\<rparr>"
      by (simp only: assms)
    from outcome_props_deliver[OF m o'] c show ?thesis by simp
  qed
  then show "handlerErrorKept h ?out ?st1" "markedOnlyOnSuccess h (uniqueID a) ?out"
    "successDespiteMark h (uniqueID a) (cache p \<noteq> None) ?out" by simp_all
qed

lemma ProcessTransaction_outcome_props:
  assumes "sol_handler q = Some g"
  shows "handlerErrorKept g (ProcessTransaction q D st t1 tu t2 tx slot)
           (fst (snd (consultCache (sol_cache q) st t1 (Signature tx))))"
    and "markedOnlyOnSuccess g (Signature tx) (ProcessTransaction q D st t1 tu t2 tx slot)"
    and "successDespiteMark g (Signature tx) (sol_cache q \<noteq> None)
           (ProcessTransaction q D st t1 tu t2 tx slot)"
proof -
  let ?out = "ProcessTransaction q D st t1 tu t2 tx slot"
  let ?st1 = "fst (snd (consultCache (sol_cache q) st t1 (Signature tx)))"
  from ProcessTransaction_cases[of q D st t1 tu t2 tx slot]
  have "handlerErrorKept g ?out ?st1 \<and> markedOnlyOnSuccess g (Signature tx) ?out \<and>
        successDespiteMark g (Signature tx) (sol_cache q \<noteq> None) ?out"
  proof (elim disjE exE conjE)
    assume "handler_calls ?out = []" "marksOf (cache_calls ?out) = []"
    then show ?thesis by (simp add: outcome_props_idle)
  next
    fix ev st1 lookups
    assume c: "consultCache (sol_cache q) st t1 (Signature tx) = (False, st1, lookups)"
      and m: "marksOf lookups = []"
      and o: "?out = (deliver (sol_cache q) (sol_handler q) st1 t2 (Signature tx) ev)
          \<lparr>cache_calls := lookups @
             cache_calls (deliver (sol_cache q) (sol_handler q) st1 t2 (Signature tx) ev)\<rparr>"
    from o have o': "?out = (deliver (sol_cache q) (Some g) st1 t2 (Signature tx) ev)
          \<lparr>cache_calls := lookups @
             cache_calls (deliver (sol_cache q) (Some g) st1 t2 (Signature tx) ev)\<rparr>"
      by (simp only: assms)
    from outcome_props_deliver[OF m o'] c show ?thesis by simp
  qed
  then show "handlerErrorKept g ?out ?st1" "markedOnlyOnSuccess g (Signature tx) ?out"
    "successDespiteMark g (Signature tx) (sol_cache q \<noteq> None) ?out" by simp_all
qed

text \<open>
  C2. Handler errors prevent the cache mark, in \<open>ProcessActivity\<close> and in
  \<open>ProcessTransaction\<close>, for any cache backend: when the handler returns an error for the
  event handed to it, the run returns that error (wrapped as a handler error), calls
  \<open>MarkProcessed\<close> not at all and leaves the cache as the \<open>IsProcessed\<close> lookup left it;
  and every \<open>MarkProcessed\<close> call of a run is for the dedup key of the event with the
  24-hour TTL, in a run whose handler returned nil.
\<close>

theorem handler_error_prevents_mark:
  assumes "handler p = Some h" and "sol_handler q = Some g"
  shows "handlerErrorKept h (ProcessActivity p H st t1 t2 a)
           (fst (snd (consultCache (cache p) st t1 (uniqueID a)))) \<and>
         markedOnlyOnSuccess h (uniqueID a) (ProcessActivity p H st t1 t2 a) \<and>
         handlerErrorKept g (ProcessTransaction q D st' u1 u2 u3 tx slot)
           (fst (snd (consultCache (sol_cache q) st' u1 (Signature tx)))) \<and>
         markedOnlyOnSuccess g (Signature tx) (ProcessTransaction q D st' u1 u2 u3 tx slot)"
  using ProcessActivity_outcome_props(1,2)[OF assms(1)]
    ProcessTransaction_outcome_props(1,2)[OF assms(2)]
  by simp

lemma tokenMints_cache_irrelevant: "tokenMints (q\<lparr>sol_cache := x\<rparr>) = tokenMints q"
  by simp

lemma sol_handler_cache_irrelevant: "sol_handler (q\<lparr>sol_cache := x\<rparr>) = sol_handler q"
  by simp

lemma sol_cache_update: "sol_cache (q\<lparr>sol_cache := x\<rparr>) = x"
  by simp

lemma extractTokenTransfers_cache_irrelevant:
  "extractTokenTransfers (q\<lparr>sol_cache := x\<rparr>) D accountKeys msg meta =
   extractTokenTransfers q D accountKeys msg meta"
  unfolding extractTokenTransfers_def decodeInstruction_def tokenTransferOf_def
    resolveLegacyMint_def getCurrencyFromMint_def tokenMints_cache_irrelevant
  by (rule refl)

lemma handler_cache_irrelevant: "handler (p\<lparr>cache := x\<rparr>) = handler p"
  by simp

lemma cache_update: "cache (p\<lparr>cache := x\<rparr>) = x"
  by simp

lemma deliver_answeringUnprocessed:
  "deliver (Some (answeringUnprocessed b)) h st now key ev = deliver (Some b) h st now key ev"
  by (auto simp: deliver_def answeringUnprocessed_def split: option.splits)

lemma consultCache_answeringUnprocessed:
  "snd (fst (isProcessed b st now key)) \<noteq> None \<Longrightarrow>
   consultCache (Some (answeringUnprocessed b)) st now key = consultCache (Some b) st now key"
  by (auto simp: consultCache_def answeringUnprocessed_def split: prod.splits)

lemma ProcessActivity_lookup_error:
  assumes "cache p = Some b" and "snd (fst (isProcessed b st t1 (uniqueID a))) \<noteq> None"
  shows "ProcessActivity (p\<lparr>cache := Some (answeringUnprocessed b)\<rparr>) H st t1 t2 a =
         ProcessActivity p H st t1 t2 a"
  unfolding ProcessActivity_def extract_cache_irrelevant handler_cache_irrelevant cache_update
    deliver_answeringUnprocessed consultCache_answeringUnprocessed[OF assms(2)] assms(1)
  by (rule refl)

lemma ProcessTransaction_lookup_error:
  assumes "sol_cache q = Some b" and "snd (fst (isProcessed b st t1 (Signature tx))) \<noteq> None"
  shows "ProcessTransaction (q\<lparr>sol_cache := Some (answeringUnprocessed b)\<rparr>) D st t1 tu t2 tx slot =
         ProcessTransaction q D st t1 tu t2 tx slot"
  unfolding ProcessTransaction_def extractTokenTransfers_cache_irrelevant
    sol_handler_cache_irrelevant sol_cache_update
    deliver_answeringUnprocessed consultCache_answeringUnprocessed[OF assms(2)] assms(1)
  by (rule refl)

text \<open>
  C4. Cache failures are fail-open in both normalizers, for any cache backend: when the
  \<open>IsProcessed\<close> call returns an error, the run is the run of the backend that answers
  \<open>(false, nil)\<close> to the lookup, so extraction and the handler call happen as for an
  unprocessed event; and when the handler returned nil for the event handed to it, the
  run returns nil, having called \<open>MarkProcessed\<close> once, whatever that call returned, an
  error included.
\<close>

theorem cache_failures_fail_open:
  assumes "cache p = Some b" and "handler p = Some h"
    and "sol_cache q = Some b'" and "sol_handler q = Some g"
  shows "(snd (fst (isProcessed b st t1 (uniqueID a))) \<noteq> None \<longrightarrow>
            ProcessActivity p H st t1 t2 a =
            ProcessActivity (p\<lparr>cache := Some (answeringUnprocessed b)\<rparr>) H st t1 t2 a) \<and>
         successDespiteMark h (uniqueID a) True (ProcessActivity p H st t1 t2 a) \<and>
         (snd (fst (isProcessed b' st' u1 (Signature tx))) \<noteq> None \<longrightarrow>
            ProcessTransaction q D st' u1 u2 u3 tx slot =
            ProcessTransaction (q\<lparr>sol_cache := Some (answeringUnprocessed b')\<rparr>) D st' u1 u2 u3 tx slot) \<and>
         successDespiteMark g (Signature tx) True (ProcessTransaction q D st' u1 u2 u3 tx slot)"
proof -
  have e: "successDespiteMark h (uniqueID a) True (ProcessActivity p H st t1 t2 a)"
    using ProcessActivity_outcome_props(3)[OF assms(2), where H=H and st=st and ?t1.0=t1
        and ?t2.0=t2 and a=a] assms(1) by simp
  have s: "successDespiteMark g (Signature tx) True (ProcessTransaction q D st' u1 u2 u3 tx slot)"
    using ProcessTransaction_outcome_props(3)[OF assms(4), where D=D and st=st' and ?t1.0=u1
        and tu=u2 and ?t2.0=u3 and tx=tx and slot=slot] assms(3)
    by simp
  show ?thesis
    using e s ProcessActivity_lookup_error[OF assms(1), where st=st and ?t1.0=t1 and a=a and H=H and ?t2.0=t2]
      ProcessTransaction_lookup_error[OF assms(3), where st=st' and ?t1.0=u1 and tx=tx and D=D
        and tu=u2 and ?t2.0=u3 and slot=slot]
    by simp
qed

lemma sample_solana_fields:
  "sol_handler (sampleSolanaProcessor g) = Some g"
  "sol_cache (sampleSolanaProcessor g) = Some (memoryCache sampleEnv)"
  by (simp_all add: sampleSolanaProcessor_def)

lemma sample_tx_run:
  assumes "consultCache (sol_cache q) st t1 (Signature sampleTx) = (False, st1, lookups)"
  shows "ProcessTransaction q D st t1 1700000000 t2 sampleTx 42 =
     (deliver (sol_cache q) (sol_handler q) st1 t2 (Signature sampleTx) sampleProcessedTx)
       \<lparr>cache_calls := lookups @
          cache_calls (deliver (sol_cache q) (sol_handler q) st1 t2 (Signature sampleTx)
                         sampleProcessedTx)\<rparr>"
proof -
  have t: "Transaction sampleTx = [\<lparr>Message = [\<lparr>Instructions = [], AccountKeys = [''A'', ''B'', ''C'']\<rparr>]\<rparr>]"
    "Meta sampleTx = [sampleMeta]"
    by (simp_all add: sampleTx_def)
  have tok: "extractTokenTransfers q D [''A'', ''B'', ''C'']
               \<lparr>Instructions = [], AccountKeys = [''A'', ''B'', ''C'']\<rparr> sampleMeta = []"
    by (simp add: extractTokenTransfers_def allInstructions_def sampleMeta_def)
  have p: "\<lparr>PSignature = Signature sampleTx, PSlot = 42,
            NativeTransfers = [\<lparr>FromUserAccount = ''B'', ToUserAccount = ''A'', Amount = 5\<rparr>],
            TokenTransfers = [], PFee = Fee sampleMeta, Timestamp = 1700000000\<rparr> = sampleProcessedTx"
    by (simp add: sampleProcessedTx_def sampleTx_def sampleMeta_def)
  show ?thesis
    unfolding ProcessTransaction_def t
    by (simp add: assms sample_native tok p Let_def)
qed

lemma sample_run:
  assumes "consultCache (cache (sampleProcessor h\<lparr>cache := ch\<rparr>)) st t1 sampleKey =
             (False, st1, lookups)"
  shows "ProcessActivity (sampleProcessor h\<lparr>cache := ch\<rparr>) H st t1 t2 sampleActivity =
     (deliver ch (Some h) st1 t2 sampleKey (samplePA False))
       \<lparr>cache_calls := lookups @ cache_calls (deliver ch (Some h) st1 t2 sampleKey (samplePA False))\<rparr>"
proof -
  have v: "validateEthereumAddress (ToAddress sampleActivity) = None"
    "validateEthereumAddress (FromAddress sampleActivity) = None"
    "validateTransactionHash (normalizeTxHash (Hash sampleActivity)) = None"
    and k: "normalizeTxHash (Hash sampleActivity) = sampleKey"
    by (rule sample_front_valid; simp)+
  have u: "uniqueID sampleActivity = sampleKey" using k by (simp add: uniqueID_def sampleActivity_def)
  have e: "extractActivity (sampleProcessor h\<lparr>cache := ch\<rparr>) H sampleActivity =
             Inr (Some (samplePA False))"
    unfolding extract_cache_irrelevant
    using sample_extract[of h H None] by (simp add: sampleActivity_def)
  have c: "consultCache (cache (sampleProcessor h\<lparr>cache := ch\<rparr>)) st t1 (uniqueID sampleActivity) =
             (False, st1, lookups)" unfolding u by (rule assms)
  show ?thesis
    by (simp add: ProcessActivity_miss[OF v c] e u Let_def sample_fields)
qed

lemma sample_sol_miss:
  "consultCache (sol_cache (sampleSolanaProcessor g)) emptyCache t k = (False, emptyCache, [Lookup k])"
  by (simp add: sampleSolanaProcessor_def consultCache_memory IsProcessed_def emptyCache_def)

lemma sample_eth_failing_handler:
  "ProcessActivity (sampleProcessor (\<lambda>ev. Some ''down'')) (\<lambda>s. s) emptyCache 5 6 sampleActivity =
     \<lparr>result = Inl (HandlerError ''down''), cache_state = emptyCache,
      handler_calls = [samplePA False], cache_calls = [Lookup sampleKey]\<rparr>"
proof -
  have p: "sampleProcessor (\<lambda>ev. Some ''down'') =
           sampleProcessor (\<lambda>ev. Some ''down'')\<lparr>cache := Some (memoryCache sampleEnv)\<rparr>"
    by (simp add: sampleProcessor_def)
  have c: "consultCache (cache (sampleProcessor (\<lambda>ev. Some ''down'')\<lparr>cache := Some (memoryCache sampleEnv)\<rparr>))
             emptyCache 5 sampleKey = (False, emptyCache, [Lookup sampleKey])"
    by (simp add: consultCache_memory IsProcessed_def emptyCache_def)
  show ?thesis
    by (subst p) (simp add: sample_run[OF c] deliver_def)
qed

lemma sample_sol_failing_handler:
  "ProcessTransaction (sampleSolanaProcessor (\<lambda>ev. Some ''down'')) (\<lambda>s. None) emptyCache 5 1700000000 6
       sampleTx 42 =
     \<lparr>result = Inl (HandlerError ''down''), cache_state = emptyCache,
      handler_calls = [sampleProcessedTx], cache_calls = [Lookup (Signature sampleTx)]\<rparr>"
  by (simp add: sample_tx_run[OF sample_sol_miss] sample_solana_fields deliver_def)

text \<open>
  C2 at concrete inputs: with a handler that always fails, the sample activity and the
  sample transaction reach the handler, the error comes back, and nothing is marked.
\<close>

theorem handler_error_prevents_mark_witness:
  "handler (sampleProcessor (\<lambda>ev. Some ''down'')) = Some (\<lambda>ev. Some ''down'') \<and>
   sol_handler (sampleSolanaProcessor (\<lambda>ev. Some ''down'')) = Some (\<lambda>ev. Some ''down'') \<and>
   handler_calls (ProcessActivity (sampleProcessor (\<lambda>ev. Some ''down'')) (\<lambda>s. s) emptyCache 5 6
                    sampleActivity) = [samplePA False] \<and>
   result (ProcessActivity (sampleProcessor (\<lambda>ev. Some ''down'')) (\<lambda>s. s) emptyCache 5 6
             sampleActivity) = Inl (HandlerError ''down'') \<and>
   marksOf (cache_calls (ProcessActivity (sampleProcessor (\<lambda>ev. Some ''down'')) (\<lambda>s. s) emptyCache 5 6
                           sampleActivity)) = [] \<and>
   handler_calls (ProcessTransaction (sampleSolanaProcessor (\<lambda>ev. Some ''down'')) (\<lambda>s. None)
                    emptyCache 5 1700000000 6 sampleTx 42) = [sampleProcessedTx] \<and>
   result (ProcessTransaction (sampleSolanaProcessor (\<lambda>ev. Some ''down'')) (\<lambda>s. None)
             emptyCache 5 1700000000 6 sampleTx 42) = Inl (HandlerError ''down'') \<and>
   marksOf (cache_calls (ProcessTransaction (sampleSolanaProcessor (\<lambda>ev. Some ''down'')) (\<lambda>s. None)
                           emptyCache 5 1700000000 6 sampleTx 42)) = []"
proof -
  let ?h = "\<lambda>ev::ProcessedActivity. Some ''down''"
  let ?g = "\<lambda>ev::ProcessedTransaction. Some ''down''"
  let ?E = "ProcessActivity (sampleProcessor ?h) (\<lambda>s. s) emptyCache 5 6 sampleActivity"
  let ?S = "ProcessTransaction (sampleSolanaProcessor ?g) (\<lambda>s. None) emptyCache 5 1700000000 6
              sampleTx 42"
  have h1: "handler (sampleProcessor ?h) = Some ?h" by (rule sample_fields)
  have h2: "sol_handler (sampleSolanaProcessor ?g) = Some ?g" by (rule sample_solana_fields)
  have e: "handler_calls ?E = [samplePA False]" by (simp add: sample_eth_failing_handler)
  have s: "handler_calls ?S = [sampleProcessedTx]" by (simp add: sample_sol_failing_handler)
  note t = handler_error_prevents_mark[OF h1 h2, of "\<lambda>s. s" emptyCache 5 6 sampleActivity
      "\<lambda>s. None" emptyCache 5 1700000000 6 sampleTx 42]
  from t have "handlerErrorKept ?h ?E
      (fst (snd (consultCache (cache (sampleProcessor ?h)) emptyCache 5 (uniqueID sampleActivity))))"
    by simp
  then have re: "result ?E = Inl (HandlerError ''down'') \<and> marksOf (cache_calls ?E) = []"
    unfolding handlerErrorKept_def using e by simp
  from t have "handlerErrorKept ?g ?S
      (fst (snd (consultCache (sol_cache (sampleSolanaProcessor ?g)) emptyCache 5 (Signature sampleTx))))"
    by simp
  then have rs: "result ?S = Inl (HandlerError ''down'') \<and> marksOf (cache_calls ?S) = []"
    unfolding handlerErrorKept_def using s by simp
  show ?thesis using h1 h2 e s re rs by simp
qed

lemma failing_lookup:
  "snd (fst (isProcessed failingCache st now key)) \<noteq> None"
  "consultCache (Some failingCache) st now key = (False, st, [Lookup key])"
  by (simp_all add: failingCache_def consultCache_def)

text \<open>
  C4 at concrete inputs: on the backend whose every call fails, the sample activity and
  the sample transaction reach the handler and both runs return nil.
\<close>

theorem cache_failures_fail_open_witness:
  "snd (fst (isProcessed failingCache emptyCache 5 (uniqueID sampleActivity))) \<noteq> None \<and>
   fst (markProcessed failingCache emptyCache 6 sampleKey ttl24h) \<noteq> None \<and>
   handler_calls (ProcessActivity (sampleProcessor (\<lambda>ev. None)\<lparr>cache := Some failingCache\<rparr>)
                    (\<lambda>s. s) emptyCache 5 6 sampleActivity) = [samplePA False] \<and>
   result (ProcessActivity (sampleProcessor (\<lambda>ev. None)\<lparr>cache := Some failingCache\<rparr>)
             (\<lambda>s. s) emptyCache 5 6 sampleActivity) = Inr () \<and>
   handler_calls (ProcessTransaction (sampleSolanaProcessor (\<lambda>ev. None)\<lparr>sol_cache := Some failingCache\<rparr>)
                    (\<lambda>s. None) emptyCache 5 1700000000 6 sampleTx 42) = [sampleProcessedTx] \<and>
   result (ProcessTransaction (sampleSolanaProcessor (\<lambda>ev. None)\<lparr>sol_cache := Some failingCache\<rparr>)
             (\<lambda>s. None) emptyCache 5 1700000000 6 sampleTx 42) = Inr ()"
proof -
  let ?h = "\<lambda>ev::ProcessedActivity. None :: string option"
  let ?g = "\<lambda>ev::ProcessedTransaction. None :: string option"
  let ?p = "sampleProcessor ?h\<lparr>cache := Some failingCache\<rparr>"
  let ?q = "sampleSolanaProcessor ?g\<lparr>sol_cache := Some failingCache\<rparr>"
  let ?E = "ProcessActivity ?p (\<lambda>s. s) emptyCache 5 6 sampleActivity"
  let ?S = "ProcessTransaction ?q (\<lambda>s. None) emptyCache 5 1700000000 6 sampleTx 42"
  have a1: "cache ?p = Some failingCache" and a2: "handler ?p = Some ?h"
    and a3: "sol_cache ?q = Some failingCache" and a4: "sol_handler ?q = Some ?g"
    by (simp_all add: sample_fields sample_solana_fields)
  have l: "snd (fst (isProcessed failingCache emptyCache 5 (uniqueID sampleActivity))) \<noteq> None"
    by (rule failing_lookup)
  have m: "fst (markProcessed failingCache emptyCache 6 sampleKey ttl24h) \<noteq> None"
    by (simp add: failingCache_def)
  have c: "consultCache (cache ?p) emptyCache 5 sampleKey = (False, emptyCache, [Lookup sampleKey])"
    by (simp add: failing_lookup)
  have e: "handler_calls ?E = [samplePA False]"
    by (simp add: sample_run[OF c] deliver_handler_calls)
  have cs: "consultCache (sol_cache ?q) emptyCache 5 (Signature sampleTx) =
              (False, emptyCache, [Lookup (Signature sampleTx)])"
    by (simp add: failing_lookup)
  have s: "handler_calls ?S = [sampleProcessedTx]"
    by (simp add: sample_tx_run[OF cs] deliver_handler_calls sample_solana_fields)
  note t = cache_failures_fail_open[OF a1 a2 a3 a4, of emptyCache 5 sampleActivity "\<lambda>s. s" 6
      emptyCache 5 sampleTx "\<lambda>s. None" 1700000000 6 42]
  from t have "successDespiteMark ?h (uniqueID sampleActivity) True ?E" by simp
  then have re: "result ?E = Inr ()" unfolding successDespiteMark_def using e by simp
  from t have "successDespiteMark ?g (Signature sampleTx) True ?S" by simp
  then have rs: "result ?S = Inr ()" unfolding successDespiteMark_def using s by simp
  show ?thesis using l m e s re rs by simp
qed

end
